theory Spec2Isabelle
  imports Main "HOL-Library.Word"
begin

section \<open>The Kubernetes-Job execution environment of custom actions (package k8sjob)\<close>

text \<open>
  A shallow embedding of \<^verbatim>\<open>pkg/skaffold/actions/k8sjob/exec_env.go\<close>. Go structs are
  records, Go maps are partial functions, pointers that the code dereferences are options
  whose \<open>None\<close> is the nil pointer, and every way a call can end (a value, a returned
  error, a run-time panic) is a constructor of \<open>result\<close>. The calls made to the
  collaborating packages are recorded, in order, as a list of events.
\<close>

subsection \<open>Data model\<close>

text \<open>\<^verbatim>\<open>graph.Artifact\<close>: an image name and a tag.\<close>

record Artifact =
  ImageName :: string
  Tag :: string

text \<open>\<^verbatim>\<open>latest.VerifyContainer\<close>: the two fields this package reads.\<close>

record VerifyContainer =
  Container_Name :: string
  Container_Image :: string

text \<open>
  \<^verbatim>\<open>latest.Action\<close> and the structs it nests. \<open>Timeout\<close> and \<open>IsFailFast\<close> are
  pointers (the code reads them through \<^verbatim>\<open>*\<close>); \<open>KubernetesClusterExecutionMode\<close> is,
  in the schema package, a pointer to the struct holding the manifest path and the
  overrides, so selecting a field through it when it is nil panics.
\<close>

record KubernetesClusterVerifier =
  Overrides :: string
  JobManifestPath :: string

record ActionConfig =
  IsFailFast :: "bool option"
  Timeout :: "int option"

record ActionExecutionModeConfig =
  KubernetesClusterExecutionMode :: "KubernetesClusterVerifier option"

record latest_Action =
  Action_Name :: string
  Config :: ActionConfig
  ExecutionModeConfig :: ActionExecutionModeConfig
  Containers :: "VerifyContainer list"

text \<open>
  \<^verbatim>\<open>batchv1.Job\<close>, reduced to the object metadata, the Pod template and the fields that
  composition reads or writes. A label map is a Go map: \<open>None\<close> is the nil map,
  \<open>Some m\<close> an allocated one. \<open>BackoffLimit\<close> is a pointer to an \<^verbatim>\<open>int32\<close>.
\<close>

record ObjectMeta =
  Meta_Name :: string
  Namespace :: string
  Labels :: "(string \<rightharpoonup> string) option"

record PodSpec =
  RestartPolicy :: string
  ServiceAccountName :: string

record PodTemplateSpec =
  Template_ObjectMeta :: ObjectMeta
  Template_Spec :: PodSpec

record JobSpec =
  Template :: PodTemplateSpec
  BackoffLimit :: "32 word option"

record Job =
  Job_ObjectMeta :: ObjectMeta
  Job_Spec :: JobSpec

text \<open>
  \<^verbatim>\<open>runtime.Object\<close>, the interface value returned by the override applier: either a
  \<^verbatim>\<open>*batchv1.Job\<close> or a value of any other dynamic type (named by its kind).
\<close>

datatype Object = JobObject Job | OtherObject string

definition RestartPolicyNever :: string where
  "RestartPolicyNever = ''Never''"

text \<open>The environment. The logger and the tracker are handles; their calls are events.\<close>

record CLI =
  KubeContext :: string

record DefaultLabeller =
  runID :: string

definition GetRunID :: "DefaultLabeller \<Rightarrow> string" where
  "GetRunID l = runID l"

record EnvVar =
  EnvVar_Name :: string
  EnvVar_Value :: string

record ExecEnv =
  kubectl :: CLI
  namespace :: string
  labeller :: DefaultLabeller
  acsCfgByName :: "string \<rightharpoonup> latest_Action"
  envVars :: "EnvVar list"

subsection \<open>Errors, panics and results\<close>

text \<open>
  A Go \<^verbatim>\<open>error\<close>: a message, or \<^verbatim>\<open>fmt.Errorf(prefix + "%w", err)\<close> wrapping another
  error behind a prefix.
\<close>

datatype error = Error string | Wrapf string error

fun error_message :: "error \<Rightarrow> string" where
  "error_message (Error m) = m"
| "error_message (Wrapf p e) = p @ error_message e"

fun Unwrap :: "error \<Rightarrow> error option" where
  "Unwrap (Error m) = None"
| "Unwrap (Wrapf p e) = Some e"

datatype panic = NilPointerDereference | InterfaceConversion | AssignmentToNilMap

datatype 'a result =
    is_Returned: Returned 'a
  | is_Failed: Failed error
  | is_Panicked: Panicked panic

subsection \<open>Collaborators and the events they see\<close>

type_synonym Writer = nat

datatype event =
    EvFailIfClusterIsNotReachable string
  | EvLoggerStart Writer
  | EvGetGenericJob
  | EvLoadFromPath string
  | EvApplyOverrides string
  | EvRegisterArtifacts "Artifact list"

fun is_register :: "event \<Rightarrow> bool" where
  "is_register (EvRegisterArtifacts as) = True"
| "is_register ev = False"

fun is_compose :: "event \<Rightarrow> bool" where
  "is_compose EvGetGenericJob = True"
| "is_compose (EvLoadFromPath p) = True"
| "is_compose (EvApplyOverrides ov) = True"
| "is_compose ev = False"

text \<open>
  The functions of other packages that the file calls, taken as parameters: the
  reachability probe (\<open>None\<close> is the nil error), the manifest loader, the override
  applier, and the constructors of tasks and actions, whose result types are left open.
  Here they return Job values, and a collaborator that returns a nil error returns a value
  with it; the pointers behind the values are the matter of the store model further down.
\<close>

record ('task, 'action) collaborators =
  FailIfClusterIsNotReachable :: "string \<Rightarrow> error option"
  GetGenericJob :: Job
  LoadFromPath :: "string \<Rightarrow> error + Job"
  ApplyOverrides :: "Job \<Rightarrow> string \<Rightarrow> error + Object"
  NewTask :: "VerifyContainer \<Rightarrow> CLI \<Rightarrow> string \<Rightarrow> Artifact \<Rightarrow> Job \<Rightarrow> ExecEnv \<Rightarrow> 'task"
  NewAction :: "string \<Rightarrow> int \<Rightarrow> bool \<Rightarrow> 'task list \<Rightarrow> 'action"

subsection \<open>newExecEnv\<close>

fun acsCfgByName_loop ::
  "latest_Action list \<Rightarrow> (string \<rightharpoonup> latest_Action) \<Rightarrow> (string \<rightharpoonup> latest_Action)" where
  "acsCfgByName_loop [] m = m"
| "acsCfgByName_loop (a # acs) m = acsCfgByName_loop acs (m(Action_Name a \<mapsto> a))"

fun envVars_loop :: "(string \<times> string) list \<Rightarrow> EnvVar list \<Rightarrow> EnvVar list" where
  "envVars_loop [] vs = vs"
| "envVars_loop ((k, v) # kvs) vs =
     envVars_loop kvs (vs @ [\<lparr>EnvVar_Name = k, EnvVar_Value = v\<rparr>])"

text \<open>
  \<open>NewCLI\<close> is \<^verbatim>\<open>kubectl.NewCLI\<close>; \<open>envMap\<close> lists the entries of the Go map in the
  order in which \<^verbatim>\<open>range\<close> yields them.
\<close>

definition newExecEnv ::
  "('cfg \<Rightarrow> string \<Rightarrow> CLI) \<Rightarrow> 'cfg \<Rightarrow> DefaultLabeller \<Rightarrow> string \<Rightarrow> (string \<times> string) list
     \<Rightarrow> latest_Action list \<Rightarrow> ExecEnv" where
  "newExecEnv NewCLI cfg labeller0 namespace0 envMap acs =
     (let namespace1 = (if namespace0 = '''' then ''default'' else namespace0);
          kubectl0 = NewCLI cfg namespace1
      in \<lparr>kubectl = kubectl0,
          namespace = namespace1,
          labeller = labeller0,
          acsCfgByName = acsCfgByName_loop acs Map.empty,
          envVars = envVars_loop envMap []\<rparr>)"

subsection \<open>Artifact binding\<close>

definition getArtifactToDeploy ::
  "ExecEnv \<Rightarrow> (string \<rightharpoonup> Artifact) \<Rightarrow> VerifyContainer \<Rightarrow> Artifact" where
  "getArtifactToDeploy e builtArtifacts cfg =
     (let artToDeploy = \<lparr>ImageName = Container_Image cfg, Tag = Container_Image cfg\<rparr>
      in case builtArtifacts (Container_Image cfg) of
           Some ba \<Rightarrow> artToDeploy\<lparr>Tag := Tag ba\<rparr>
         | None \<Rightarrow> artToDeploy)"

subsection \<open>Manifest composition\<close>

definition getBaseJobManifest ::
  "('task, 'action) collaborators \<Rightarrow> ExecEnv \<Rightarrow> string \<Rightarrow> event list \<times> Job result" where
  "getBaseJobManifest c e jobManifestPath =
     (if jobManifestPath = '''' then ([EvGetGenericJob], Returned (GetGenericJob c))
      else ([EvLoadFromPath jobManifestPath],
            case LoadFromPath c jobManifestPath of
              Inl err \<Rightarrow> Failed err
            | Inr job \<Rightarrow> Returned job))"

text \<open>
  The type assertion \<^verbatim>\<open>obj.(*batchv1.Job)\<close> has the one-result form: on a value of another
  dynamic type it panics.
\<close>

definition applyOverrides ::
  "('task, 'action) collaborators \<Rightarrow> ExecEnv \<Rightarrow> Job \<Rightarrow> string \<Rightarrow> event list \<times> Job result" where
  "applyOverrides c e job overrides =
     (if overrides = '''' then ([], Returned job)
      else ([EvApplyOverrides overrides],
            case ApplyOverrides c job overrides of
              Inl err \<Rightarrow> Failed err
            | Inr obj \<Rightarrow>
                (case obj of
                   JobObject j \<Rightarrow> Returned j
                 | OtherObject kind \<Rightarrow> Panicked InterfaceConversion)))"

text \<open>An assignment \<^verbatim>\<open>m[k] = v\<close>: it panics on the nil map.\<close>

definition map_assign ::
  "(string \<rightharpoonup> string) option \<Rightarrow> string \<Rightarrow> string \<Rightarrow> (string \<rightharpoonup> string) option result" where
  "map_assign m k v =
     (case m of
        None \<Rightarrow> Panicked AssignmentToNilMap
      | Some f \<Rightarrow> Returned (Some (f(k \<mapsto> v))))"

definition set_Job_Labels :: "Job \<Rightarrow> (string \<rightharpoonup> string) option \<Rightarrow> Job" where
  "set_Job_Labels job ls = job\<lparr>Job_ObjectMeta := (Job_ObjectMeta job)\<lparr>Labels := ls\<rparr>\<rparr>"

definition set_Job_Namespace :: "Job \<Rightarrow> string \<Rightarrow> Job" where
  "set_Job_Namespace job ns = job\<lparr>Job_ObjectMeta := (Job_ObjectMeta job)\<lparr>Namespace := ns\<rparr>\<rparr>"

definition Template_Labels :: "Job \<Rightarrow> (string \<rightharpoonup> string) option" where
  "Template_Labels job = Labels (Template_ObjectMeta (Template (Job_Spec job)))"

definition set_Template_Labels :: "Job \<Rightarrow> (string \<rightharpoonup> string) option \<Rightarrow> Job" where
  "set_Template_Labels job ls =
     job\<lparr>Job_Spec := (Job_Spec job)\<lparr>Template := (Template (Job_Spec job))
       \<lparr>Template_ObjectMeta := (Template_ObjectMeta (Template (Job_Spec job)))\<lparr>Labels := ls\<rparr>\<rparr>\<rparr>\<rparr>"

definition set_RestartPolicy :: "Job \<Rightarrow> string \<Rightarrow> Job" where
  "set_RestartPolicy job p =
     job\<lparr>Job_Spec := (Job_Spec job)\<lparr>Template := (Template (Job_Spec job))
       \<lparr>Template_Spec := (Template_Spec (Template (Job_Spec job)))\<lparr>RestartPolicy := p\<rparr>\<rparr>\<rparr>\<rparr>"

definition set_BackoffLimit :: "Job \<Rightarrow> 32 word option \<Rightarrow> Job" where
  "set_BackoffLimit job b = job\<lparr>Job_Spec := (Job_Spec job)\<lparr>BackoffLimit := b\<rparr>\<rparr>"

text \<open>
  \<^verbatim>\<open>setDefaultValues\<close> updates the Job in place, statement by statement; here each
  statement yields the next value of the Job.
\<close>

definition setDefaultValues :: "ExecEnv \<Rightarrow> Job \<Rightarrow> Job result" where
  "setDefaultValues e job =
     (let job1 = (if Labels (Job_ObjectMeta job) = None
                  then set_Job_Labels job (Some Map.empty) else job);
          job2 = (if Template_Labels job1 = None
                  then set_Template_Labels job1 (Some Map.empty) else job1);
          job3 = (if Namespace (Job_ObjectMeta job2) = ''''
                  then set_Job_Namespace job2 (namespace e) else job2)
      in case map_assign (Labels (Job_ObjectMeta job3)) ''skaffold.dev/run-id''
                (GetRunID (labeller e)) of
           Panicked p \<Rightarrow> Panicked p
         | Failed err \<Rightarrow> Failed err
         | Returned ls \<Rightarrow>
             (let job4 = set_Job_Labels job3 ls
              in case map_assign (Template_Labels job4) ''skaffold.dev/run-id''
                        (GetRunID (labeller e)) of
                   Panicked p \<Rightarrow> Panicked p
                 | Failed err \<Rightarrow> Failed err
                 | Returned tls \<Rightarrow>
                     (let job5 = set_Template_Labels job4 tls;
                          job6 = set_RestartPolicy job5 RestartPolicyNever;
                          job7 = set_BackoffLimit job6 (Some 0)
                      in Returned job7)))"

definition getJobManifest ::
  "('task, 'action) collaborators \<Rightarrow> ExecEnv \<Rightarrow> string \<Rightarrow> string \<Rightarrow> event list \<times> Job result" where
  "getJobManifest c e jobManifestPath overrides =
     (case getBaseJobManifest c e jobManifestPath of
        (evs1, Failed err) \<Rightarrow> (evs1, Failed err)
      | (evs1, Panicked p) \<Rightarrow> (evs1, Panicked p)
      | (evs1, Returned job) \<Rightarrow>
          (case applyOverrides c e job overrides of
             (evs2, Failed err) \<Rightarrow> (evs1 @ evs2, Failed err)
           | (evs2, Panicked p) \<Rightarrow> (evs1 @ evs2, Panicked p)
           | (evs2, Returned job') \<Rightarrow> (evs1 @ evs2, setDefaultValues e job')))"

subsection \<open>Tasks and actions\<close>

fun createTasks_loop ::
  "('task, 'action) collaborators \<Rightarrow> ExecEnv \<Rightarrow> Job \<Rightarrow> (string \<rightharpoonup> Artifact)
     \<Rightarrow> VerifyContainer list \<Rightarrow> 'task list \<Rightarrow> Artifact list \<Rightarrow> 'task list \<times> Artifact list" where
  "createTasks_loop c e jobManifest builtArtifacts [] ts toTrack = (ts, toTrack)"
| "createTasks_loop c e jobManifest builtArtifacts (cCfg # rest) ts toTrack =
     (let art = getArtifactToDeploy e builtArtifacts cCfg;
          ts' = ts @ [NewTask c cCfg (kubectl e) (namespace e) art jobManifest e];
          toTrack' = toTrack @ [\<lparr>ImageName = Container_Image cCfg, Tag = Container_Name cCfg\<rparr>]
      in createTasks_loop c e jobManifest builtArtifacts rest ts' toTrack')"

definition createTasks ::
  "('task, 'action) collaborators \<Rightarrow> ExecEnv \<Rightarrow> Writer \<Rightarrow> latest_Action \<Rightarrow> Job
     \<Rightarrow> (string \<rightharpoonup> Artifact) \<Rightarrow> 'task list \<times> Artifact list" where
  "createTasks c e out aCfg jobManifest builtArtifacts =
     createTasks_loop c e jobManifest builtArtifacts (Containers aCfg) [] []"

fun builtArtifacts_loop ::
  "Artifact list \<Rightarrow> (string \<rightharpoonup> Artifact) \<Rightarrow> (string \<rightharpoonup> Artifact)" where
  "builtArtifacts_loop [] m = m"
| "builtArtifacts_loop (b # bs) m = builtArtifacts_loop bs (m(ImageName b \<mapsto> b))"

text \<open>
  The loop over the requested names, with its two accumulators. Every \<^verbatim>\<open>return\<close> inside
  the loop, and every panic, ends it at once.
\<close>

fun createActions_loop ::
  "('task, 'action) collaborators \<Rightarrow> ExecEnv \<Rightarrow> Writer \<Rightarrow> (string \<rightharpoonup> Artifact) \<Rightarrow> string list
     \<Rightarrow> 'action list \<Rightarrow> Artifact list \<Rightarrow> event list \<times> ('action list \<times> Artifact list) result" where
  "createActions_loop c e out builtArtifacts [] acs toTrack = ([], Returned (acs, toTrack))"
| "createActions_loop c e out builtArtifacts (aName # rest) acs toTrack =
     (case acsCfgByName e aName of
        None \<Rightarrow>
          ([], Failed (Error (''action '' @ aName @ '' not found for k8s execution mode'')))
      | Some aCfg \<Rightarrow>
          (case KubernetesClusterExecutionMode (ExecutionModeConfig aCfg) of
             None \<Rightarrow> ([], Panicked NilPointerDereference)
           | Some k \<Rightarrow>
               (case getJobManifest c e (JobManifestPath k) (Overrides k) of
                  (evs, Failed err) \<Rightarrow> (evs, Failed err)
                | (evs, Panicked p) \<Rightarrow> (evs, Panicked p)
                | (evs, Returned jm) \<Rightarrow>
                    (case createTasks c e out aCfg jm builtArtifacts of
                       (ts, artifactsToTrack) \<Rightarrow>
                         (case Timeout (Config aCfg) of
                            None \<Rightarrow> (evs, Panicked NilPointerDereference)
                          | Some timeout \<Rightarrow>
                              (case IsFailFast (Config aCfg) of
                                 None \<Rightarrow> (evs, Panicked NilPointerDereference)
                               | Some isFailFast \<Rightarrow>
                                   (case createActions_loop c e out builtArtifacts rest
                                           (acs @ [NewAction c (Action_Name aCfg) timeout isFailFast ts])
                                           (toTrack @ artifactsToTrack) of
                                      (evs', r) \<Rightarrow> (evs @ evs', r))))))))"

definition createActions ::
  "('task, 'action) collaborators \<Rightarrow> ExecEnv \<Rightarrow> Writer \<Rightarrow> Artifact list \<Rightarrow> string list
     \<Rightarrow> event list \<times> 'action list result" where
  "createActions c e out bs acsNames =
     (case createActions_loop c e out (builtArtifacts_loop bs Map.empty) acsNames [] [] of
        (evs, Failed err) \<Rightarrow> (evs, Failed err)
      | (evs, Panicked p) \<Rightarrow> (evs, Panicked p)
      | (evs, Returned (acs, toTrack)) \<Rightarrow> (evs @ [EvRegisterArtifacts toTrack], Returned acs))"

definition PrepareActions ::
  "('task, 'action) collaborators \<Rightarrow> ExecEnv \<Rightarrow> Writer \<Rightarrow> Artifact list \<Rightarrow> string list
     \<Rightarrow> event list \<times> 'action list result" where
  "PrepareActions c e out allbuilds acsNames =
     (case FailIfClusterIsNotReachable c (KubeContext (kubectl e)) of
        Some err \<Rightarrow>
          ([EvFailIfClusterIsNotReachable (KubeContext (kubectl e))],
           Failed (Wrapf ''unable to connect to Kubernetes: '' err))
      | None \<Rightarrow>
          (case createActions c e out allbuilds acsNames of
             (evs, r) \<Rightarrow>
               (EvFailIfClusterIsNotReachable (KubeContext (kubectl e)) # EvLoggerStart out # evs, r)))"

subsection \<open>Composition through pointers\<close>

text \<open>
  In the source a Job is reached through a \<^verbatim>\<open>*batchv1.Job\<close>: the loader returns a pointer,
  the override applier takes one and returns an interface value holding one, and
  \<^verbatim>\<open>setDefaultValues\<close> writes through the pointer it is given. The definitions above work
  on the Job values; the ones below keep the Jobs in a store and pass their addresses, so
  that what a call leaves behind is there for the next call. A store is the list of the
  Jobs allocated so far, an address is a position in it, and a new Job goes to the end.
\<close>

type_synonym addr = nat

type_synonym store = "Job list"

definition deref :: "store \<Rightarrow> addr \<Rightarrow> Job option" where
  "deref s a = (if a < length s then Some (s ! a) else None)"

datatype ObjectRef = JobRef addr | OtherRef string

text \<open>The loader and the applier as functions of the store, taken as parameters.\<close>

record store_collaborators =
  GetGenericJob_ptr :: "store \<Rightarrow> addr \<times> store"
  LoadFromPath_ptr :: "string \<Rightarrow> store \<Rightarrow> (error + addr) \<times> store"
  ApplyOverrides_ptr :: "addr \<Rightarrow> string \<Rightarrow> store \<Rightarrow> (error + ObjectRef) \<times> store"

definition getBaseJobManifest_ptr ::
  "store_collaborators \<Rightarrow> ExecEnv \<Rightarrow> string \<Rightarrow> store \<Rightarrow> addr result \<times> store" where
  "getBaseJobManifest_ptr h e jobManifestPath s =
     (if jobManifestPath = '''' then
        (case GetGenericJob_ptr h s of (job, s') \<Rightarrow> (Returned job, s'))
      else
        (case LoadFromPath_ptr h jobManifestPath s of
           (Inl err, s') \<Rightarrow> (Failed err, s')
         | (Inr job, s') \<Rightarrow> (Returned job, s')))"

definition applyOverrides_ptr ::
  "store_collaborators \<Rightarrow> ExecEnv \<Rightarrow> addr \<Rightarrow> string \<Rightarrow> store \<Rightarrow> addr result \<times> store" where
  "applyOverrides_ptr h e job overrides s =
     (if overrides = '''' then (Returned job, s)
      else
        (case ApplyOverrides_ptr h job overrides s of
           (Inl err, s') \<Rightarrow> (Failed err, s')
         | (Inr obj, s') \<Rightarrow>
             (case obj of
                JobRef j \<Rightarrow> (Returned j, s')
              | OtherRef kind \<Rightarrow> (Panicked InterfaceConversion, s'))))"

text \<open>
  \<^verbatim>\<open>setDefaultValues\<close> on a pointer: the Job found at the address is replaced by the Job
  that the statements of the function make of it; an address that holds nothing is a nil
  pointer.
\<close>

definition setDefaultValues_ptr :: "ExecEnv \<Rightarrow> addr \<Rightarrow> store \<Rightarrow> unit result \<times> store" where
  "setDefaultValues_ptr e job s =
     (case deref s job of
        None \<Rightarrow> (Panicked NilPointerDereference, s)
      | Some j \<Rightarrow>
          (case setDefaultValues e j of
             Returned j' \<Rightarrow> (Returned (), s[job := j'])
           | Failed err \<Rightarrow> (Failed err, s)
           | Panicked p \<Rightarrow> (Panicked p, s)))"

definition getJobManifest_ptr ::
  "store_collaborators \<Rightarrow> ExecEnv \<Rightarrow> string \<Rightarrow> string \<Rightarrow> store \<Rightarrow> addr result \<times> store" where
  "getJobManifest_ptr h e jobManifestPath overrides s =
     (case getBaseJobManifest_ptr h e jobManifestPath s of
        (Failed err, s1) \<Rightarrow> (Failed err, s1)
      | (Panicked p, s1) \<Rightarrow> (Panicked p, s1)
      | (Returned job, s1) \<Rightarrow>
          (case applyOverrides_ptr h e job overrides s1 of
             (Failed err, s2) \<Rightarrow> (Failed err, s2)
           | (Panicked p, s2) \<Rightarrow> (Panicked p, s2)
           | (Returned job', s2) \<Rightarrow>
               (case setDefaultValues_ptr e job' s2 of
                  (Failed err, s3) \<Rightarrow> (Failed err, s3)
                | (Panicked p, s3) \<Rightarrow> (Panicked p, s3)
                | (Returned u, s3) \<Rightarrow> (Returned job', s3))))"

section \<open>Vocabulary of the statements\<close>

text \<open>
  What one container contributes to the tracked artifacts, and the tasks of one action,
  written as maps over the container declarations.
\<close>

definition tracked_of :: "latest_Action \<Rightarrow> Artifact list" where
  "tracked_of aCfg =
     map (\<lambda>cCfg. \<lparr>ImageName = Container_Image cCfg, Tag = Container_Name cCfg\<rparr>)
       (Containers aCfg)"

definition tasks_of ::
  "('task, 'action) collaborators \<Rightarrow> ExecEnv \<Rightarrow> (string \<rightharpoonup> Artifact) \<Rightarrow> Job \<Rightarrow> latest_Action
     \<Rightarrow> 'task list" where
  "tasks_of c e builtArtifacts jm aCfg =
     map (\<lambda>cCfg. NewTask c cCfg (kubectl e) (namespace e)
             (getArtifactToDeploy e builtArtifacts cCfg) jm e)
       (Containers aCfg)"

text \<open>The composition of the manifest of one action configuration, as the loop calls it.\<close>

definition manifest_of ::
  "('task, 'action) collaborators \<Rightarrow> ExecEnv \<Rightarrow> latest_Action \<Rightarrow> event list \<times> Job result" where
  "manifest_of c e aCfg =
     (case KubernetesClusterExecutionMode (ExecutionModeConfig aCfg) of
        None \<Rightarrow> ([], Panicked NilPointerDereference)
      | Some k \<Rightarrow> getJobManifest c e (JobManifestPath k) (Overrides k))"

text \<open>
  A requested name is assembled when it is in the registry, the composition of its manifest
  returns a Job, and its timeout and fail-fast pointers are set.
\<close>

definition assembles :: "('task, 'action) collaborators \<Rightarrow> ExecEnv \<Rightarrow> string \<Rightarrow> bool" where
  "assembles c e aName =
     (case acsCfgByName e aName of
        None \<Rightarrow> False
      | Some aCfg \<Rightarrow>
          is_Returned (snd (manifest_of c e aCfg)) \<and>
          Timeout (Config aCfg) \<noteq> None \<and> IsFailFast (Config aCfg) \<noteq> None)"

definition events_of :: "('task, 'action) collaborators \<Rightarrow> ExecEnv \<Rightarrow> string \<Rightarrow> event list" where
  "events_of c e aName =
     (case acsCfgByName e aName of
        None \<Rightarrow> []
      | Some aCfg \<Rightarrow> fst (manifest_of c e aCfg))"

definition tracked_by_name :: "ExecEnv \<Rightarrow> string \<Rightarrow> Artifact list" where
  "tracked_by_name e aName =
     (case acsCfgByName e aName of
        None \<Rightarrow> []
      | Some aCfg \<Rightarrow> tracked_of aCfg)"

definition action_of ::
  "('task, 'action) collaborators \<Rightarrow> ExecEnv \<Rightarrow> (string \<rightharpoonup> Artifact) \<Rightarrow> string
     \<Rightarrow> 'action option" where
  "action_of c e builtArtifacts aName =
     (case acsCfgByName e aName of
        None \<Rightarrow> None
      | Some aCfg \<Rightarrow>
          (case (snd (manifest_of c e aCfg), Timeout (Config aCfg), IsFailFast (Config aCfg)) of
             (Returned jm, Some timeout, Some isFailFast) \<Rightarrow>
               Some (NewAction c (Action_Name aCfg) timeout isFailFast
                       (tasks_of c e builtArtifacts jm aCfg))
           | _ \<Rightarrow> None))"

text \<open>How a call ended, without the value it returned.\<close>

fun forget :: "'a result \<Rightarrow> unit result" where
  "forget (Returned x) = Returned ()"
| "forget (Failed err) = Failed err"
| "forget (Panicked p) = Panicked p"

text \<open>
  The Job that \<open>setDefaultValues\<close> returns (it always returns one), and the manifest a
  call of \<open>getJobManifest_ptr\<close> returned: the Job found in the store at the returned
  address.
\<close>

definition defaulted :: "ExecEnv \<Rightarrow> Job \<Rightarrow> Job" where
  "defaulted e j =
     (case setDefaultValues e j of
        Returned j' \<Rightarrow> j'
      | Failed err \<Rightarrow> j
      | Panicked p \<Rightarrow> j)"

definition manifest_at :: "addr result \<Rightarrow> store \<Rightarrow> Job option result" where
  "manifest_at r s =
     (case r of
        Returned a \<Rightarrow> Returned (deref s a)
      | Failed err \<Rightarrow> Failed err
      | Panicked p \<Rightarrow> Panicked p)"

definition value_of :: "Job result \<Rightarrow> Job option result" where
  "value_of r =
     (case r of
        Returned j \<Rightarrow> Returned (Some j)
      | Failed err \<Rightarrow> Failed err
      | Panicked p \<Rightarrow> Panicked p)"

text \<open>
  The collaborator that \<open>getBaseJobManifest_ptr\<close> calls for a path, and what it means
  that the results of the collaborators are fixed. The base collaborator either fails with
  one error at every call, or allocates at every call a new Job with the same fields, or
  returns at every call the same pointer to a Job that exists from the start (a Job it
  keeps and hands out again, so that what a composition wrote into it is still there at
  the next call). The applier, for the payload, computes its answer from the fields of the
  Job it is given and leaves that Job as it is: an error, a resource of another kind, or a
  newly allocated Job.
\<close>

definition base_call ::
  "store_collaborators \<Rightarrow> string \<Rightarrow> store \<Rightarrow> (error + addr) \<times> store" where
  "base_call h jobManifestPath s =
     (if jobManifestPath = '''' then
        (case GetGenericJob_ptr h s of (job, s') \<Rightarrow> (Inr job, s'))
      else LoadFromPath_ptr h jobManifestPath s)"

definition fixed_result :: "(store \<Rightarrow> (error + addr) \<times> store) \<Rightarrow> store \<Rightarrow> bool" where
  "fixed_result f s0 \<longleftrightarrow>
     (\<exists>err. \<forall>s. f s = (Inl err, s)) \<or>
     (\<exists>j. \<forall>s. f s = (Inr (length s), s @ [j])) \<or>
     (\<exists>a. a < length s0 \<and> (\<forall>s. f s = (Inr a, s)))"

definition patch_of ::
  "(addr \<Rightarrow> string \<Rightarrow> store \<Rightarrow> (error + ObjectRef) \<times> store) \<Rightarrow> string
     \<Rightarrow> (Job \<Rightarrow> error + Object) \<Rightarrow> bool" where
  "patch_of g overrides A \<longleftrightarrow>
     (\<forall>job s j. deref s job = Some j \<longrightarrow>
        g job overrides s =
          (case A j of
             Inl err \<Rightarrow> (Inl err, s)
           | Inr (OtherObject kind) \<Rightarrow> (Inr (OtherRef kind), s)
           | Inr (JobObject j') \<Rightarrow> (Inr (JobRef (length s)), s @ [j'])))"

definition fixed_patch ::
  "(addr \<Rightarrow> string \<Rightarrow> store \<Rightarrow> (error + ObjectRef) \<times> store) \<Rightarrow> string \<Rightarrow> bool" where
  "fixed_patch g overrides \<longleftrightarrow> (\<exists>A. patch_of g overrides A)"

text \<open>
  Store collaborators that allocate a new Job at every call, holding what the value
  collaborators return.
\<close>

definition allocates :: "('task, 'action) collaborators \<Rightarrow> store_collaborators \<Rightarrow> bool" where
  "allocates c h \<longleftrightarrow>
     (\<forall>s. GetGenericJob_ptr h s = (length s, s @ [GetGenericJob c])) \<and>
     (\<forall>p s. LoadFromPath_ptr h p s =
        (case LoadFromPath c p of
           Inl err \<Rightarrow> (Inl err, s)
         | Inr j \<Rightarrow> (Inr (length s), s @ [j]))) \<and>
     (\<forall>ov. patch_of (ApplyOverrides_ptr h) ov (\<lambda>j. ApplyOverrides c j ov))"

section \<open>A concrete environment\<close>

text \<open>
  Collaborators, a registry of four actions and a list of built artifacts on which the
  definitions are evaluated: a generic Job without labels or namespace, a loader that knows
  one file, an applier that answers \<open>kind: Pod\<close> with a Pod and any other payload with a
  Job whose run-id label is the payload, and task and action constructors that keep what
  the statements look at.
\<close>

definition demo_job :: Job where
  "demo_job =
     \<lparr>Job_ObjectMeta = \<lparr>Meta_Name = ''generic'', Namespace = '''', Labels = None\<rparr>,
      Job_Spec =
        \<lparr>Template =
           \<lparr>Template_ObjectMeta = \<lparr>Meta_Name = '''', Namespace = '''', Labels = None\<rparr>,
            Template_Spec = \<lparr>RestartPolicy = ''OnFailure'', ServiceAccountName = ''''\<rparr>\<rparr>,
         BackoffLimit = Some 6\<rparr>\<rparr>"

definition demo_collab ::
  "(string \<times> Artifact \<times> string,
    string \<times> int \<times> bool \<times> (string \<times> Artifact \<times> string) list) collaborators" where
  "demo_collab =
     \<lparr>FailIfClusterIsNotReachable =
        (\<lambda>k. if k = ''down'' then Some (Error ''cluster unreachable'') else None),
      GetGenericJob = demo_job,
      LoadFromPath =
        (\<lambda>p. if p = ''job.yaml'' then Inr (set_Job_Namespace demo_job ''jobs'')
             else Inl (Error ''cannot read manifest'')),
      ApplyOverrides =
        (\<lambda>job ov. if ov = ''kind: Pod'' then Inr (OtherObject ''Pod'')
                  else Inr (JobObject
                         (set_Job_Labels job (Some [''skaffold.dev/run-id'' \<mapsto> ov])))),
      NewTask = (\<lambda>cCfg k ns art jm e. (Container_Name cCfg, art, Namespace (Job_ObjectMeta jm))),
      NewAction = (\<lambda>n t f ts. (n, t, f, ts))\<rparr>"

definition demo_action ::
  "string \<Rightarrow> string \<Rightarrow> string \<Rightarrow> VerifyContainer list \<Rightarrow> latest_Action" where
  "demo_action n p ov cs =
     \<lparr>Action_Name = n,
      Config = \<lparr>IsFailFast = Some True, Timeout = Some 30\<rparr>,
      ExecutionModeConfig =
        \<lparr>KubernetesClusterExecutionMode = Some \<lparr>Overrides = ov, JobManifestPath = p\<rparr>\<rparr>,
      Containers = cs\<rparr>"

definition demo_actions :: "latest_Action list" where
  "demo_actions =
     [demo_action ''verify'' '''' '''' [\<lparr>Container_Name = ''t1'', Container_Image = ''app''\<rparr>],
      demo_action ''broken'' ''missing.yaml'' ''''
        [\<lparr>Container_Name = ''t2'', Container_Image = ''db''\<rparr>],
      demo_action ''pod'' '''' ''kind: Pod''
        [\<lparr>Container_Name = ''t3'', Container_Image = ''app''\<rparr>],
      demo_action ''pair'' ''job.yaml'' ''patched''
        [\<lparr>Container_Name = ''t4'', Container_Image = ''db''\<rparr>,
         \<lparr>Container_Name = ''t5'', Container_Image = ''web''\<rparr>]]"

definition demo_NewCLI :: "string \<Rightarrow> string \<Rightarrow> CLI" where
  "demo_NewCLI cfg ns = \<lparr>KubeContext = cfg\<rparr>"

definition demo_env :: ExecEnv where
  "demo_env = newExecEnv demo_NewCLI ''minikube'' \<lparr>runID = ''run-1''\<rparr> '''' [] demo_actions"

definition demo_env_down :: ExecEnv where
  "demo_env_down = newExecEnv demo_NewCLI ''down'' \<lparr>runID = ''run-1''\<rparr> '''' [] demo_actions"

definition demo_builds :: "Artifact list" where
  "demo_builds =
     [\<lparr>ImageName = ''app'', Tag = ''v1''\<rparr>, \<lparr>ImageName = ''db'', Tag = ''d1''\<rparr>,
      \<lparr>ImageName = ''app'', Tag = ''v2''\<rparr>]"

text \<open>The manifest composed from \<open>job.yaml\<close> and the payload \<open>patched\<close>.\<close>

definition demo_manifest :: Job where
  "demo_manifest =
     \<lparr>Job_ObjectMeta =
        \<lparr>Meta_Name = ''generic'', Namespace = ''jobs'',
         Labels = Some [''skaffold.dev/run-id'' \<mapsto> ''run-1'']\<rparr>,
      Job_Spec =
        \<lparr>Template =
           \<lparr>Template_ObjectMeta =
              \<lparr>Meta_Name = '''', Namespace = '''',
               Labels = Some [''skaffold.dev/run-id'' \<mapsto> ''run-1'']\<rparr>,
            Template_Spec = \<lparr>RestartPolicy = ''Never'', ServiceAccountName = ''''\<rparr>\<rparr>,
         BackoffLimit = Some 0\<rparr>\<rparr>"

text \<open>
  Store collaborators: the generic Job is one Job kept at address 0 and handed out at
  every call, the loader allocates a new Job for \<open>job.yaml\<close> at every call, and the
  applier allocates its answer. The composed generic Job follows.
\<close>

definition demo_ptr :: store_collaborators where
  "demo_ptr =
     \<lparr>GetGenericJob_ptr = (\<lambda>s. (0, s)),
      LoadFromPath_ptr =
        (\<lambda>p s. if p = ''job.yaml''
               then (Inr (length s), s @ [set_Job_Namespace demo_job ''jobs''])
               else (Inl (Error ''cannot read manifest''), s)),
      ApplyOverrides_ptr =
        (\<lambda>job ov s.
           case deref s job of
             None \<Rightarrow> (Inl (Error ''no object''), s)
           | Some j \<Rightarrow>
               (Inr (JobRef (length s)),
                s @ [set_Job_Labels j (Some [''skaffold.dev/run-id'' \<mapsto> ov])]))\<rparr>"

definition demo_generic_manifest :: Job where
  "demo_generic_manifest =
     \<lparr>Job_ObjectMeta =
        \<lparr>Meta_Name = ''generic'', Namespace = ''default'',
         Labels = Some [''skaffold.dev/run-id'' \<mapsto> ''run-1'']\<rparr>,
      Job_Spec =
        \<lparr>Template =
           \<lparr>Template_ObjectMeta =
              \<lparr>Meta_Name = '''', Namespace = '''',
               Labels = Some [''skaffold.dev/run-id'' \<mapsto> ''run-1'']\<rparr>,
            Template_Spec = \<lparr>RestartPolicy = ''Never'', ServiceAccountName = ''''\<rparr>\<rparr>,
         BackoffLimit = Some 0\<rparr>\<rparr>"

lemmas demo_defs =
  demo_job_def demo_collab_def demo_action_def demo_actions_def demo_NewCLI_def demo_env_def
  demo_env_down_def demo_builds_def demo_manifest_def demo_ptr_def demo_generic_manifest_def
  newExecEnv_def

lemmas code_defs =
  createActions_def createTasks_def getJobManifest_def getBaseJobManifest_def applyOverrides_def
  setDefaultValues_def map_assign_def set_Job_Labels_def set_Job_Namespace_def
  set_Template_Labels_def set_RestartPolicy_def set_BackoffLimit_def Template_Labels_def
  getArtifactToDeploy_def GetRunID_def RestartPolicyNever_def PrepareActions_def Let_def

lemmas ptr_defs =
  getJobManifest_ptr_def getBaseJobManifest_ptr_def applyOverrides_ptr_def
  setDefaultValues_ptr_def deref_def

lemmas vocabulary_defs =
  assembles_def manifest_of_def events_of_def tracked_by_name_def tracked_of_def tasks_of_def
  action_of_def

section \<open>Auxiliary facts\<close>

subsection \<open>The loops as maps\<close>

lemma createTasks_loop_eq:
  "createTasks_loop c e jm built cs ts tt =
     (ts @ map (\<lambda>cCfg. NewTask c cCfg (kubectl e) (namespace e)
                   (getArtifactToDeploy e built cCfg) jm e) cs,
      tt @ map (\<lambda>cCfg. \<lparr>ImageName = Container_Image cCfg, Tag = Container_Name cCfg\<rparr>) cs)"
  by (induction cs arbitrary: ts tt) (simp_all add: Let_def)

lemma createTasks_eq:
  "createTasks c e out aCfg jm built = (tasks_of c e built jm aCfg, tracked_of aCfg)"
  by (simp add: createTasks_def createTasks_loop_eq tasks_of_def tracked_of_def)

lemma builtArtifacts_loop_lookup:
  "builtArtifacts_loop bs m n =
     (case filter (\<lambda>b. ImageName b = n) bs of
        [] \<Rightarrow> m n
      | b # bs' \<Rightarrow> Some (last (b # bs')))"
proof (induction bs arbitrary: m)
  case Nil
  then show ?case by simp
next
  case (Cons b bs)
  then show ?case by (simp split: list.splits)
qed

subsection \<open>Composition\<close>

lemma setDefaultValues_returns: "\<exists>job'. setDefaultValues e job = Returned job'"
  by (auto simp: setDefaultValues_def Let_def map_assign_def set_Job_Labels_def
      set_Template_Labels_def set_Job_Namespace_def Template_Labels_def split: option.splits)

lemma setDefaultValues_eq:
  "setDefaultValues e job = Returned job' \<Longrightarrow>
   Namespace (Job_ObjectMeta job') =
     (if Namespace (Job_ObjectMeta job) = '''' then namespace e
      else Namespace (Job_ObjectMeta job)) \<and>
   (\<exists>m. Labels (Job_ObjectMeta job') = Some m \<and>
        m ''skaffold.dev/run-id'' = Some (GetRunID (labeller e))) \<and>
   (\<exists>m. Template_Labels job' = Some m \<and>
        m ''skaffold.dev/run-id'' = Some (GetRunID (labeller e))) \<and>
   RestartPolicy (Template_Spec (Template (Job_Spec job'))) = ''Never'' \<and>
   BackoffLimit (Job_Spec job') = Some 0"
  by (auto simp: setDefaultValues_def Let_def map_assign_def set_Job_Labels_def
      set_Template_Labels_def set_Job_Namespace_def Template_Labels_def set_RestartPolicy_def
      set_BackoffLimit_def RestartPolicyNever_def split: option.splits if_splits)

lemma setDefaultValues_cong:
  "namespace e1 = namespace e2 \<Longrightarrow> GetRunID (labeller e1) = GetRunID (labeller e2) \<Longrightarrow>
   setDefaultValues e1 job = setDefaultValues e2 job"
  by (simp add: setDefaultValues_def Let_def cong: result.case_cong if_cong)

lemma getJobManifest_Returned:
  "getJobManifest c e p ov = (evs, Returned job') \<Longrightarrow>
   \<exists>job. setDefaultValues e job = Returned job'"
  by (auto simp: getJobManifest_def split: prod.splits result.splits)

text \<open>
  The two guards at the head of \<open>setDefaultValues\<close> allocate the label maps, so the
  assignments after them never meet a nil map.
\<close>

lemma getJobManifest_no_nil_map:
  "snd (getJobManifest c e p ov) \<noteq> Panicked AssignmentToNilMap"
proof -
  have "setDefaultValues e job \<noteq> Panicked AssignmentToNilMap" for job
    using setDefaultValues_returns [of e job] by auto
  then show ?thesis
    by (auto simp: getJobManifest_def getBaseJobManifest_def applyOverrides_def
        split: prod.splits result.splits if_splits sum.splits Object.splits)
qed

subsection \<open>Events\<close>

lemma getBaseJobManifest_events:
  "getBaseJobManifest c e p = (evs, r) \<Longrightarrow> list_all is_compose evs"
  by (auto simp: getBaseJobManifest_def split: if_splits)

lemma applyOverrides_events:
  "applyOverrides c e j ov = (evs, r) \<Longrightarrow> list_all is_compose evs"
  by (auto simp: applyOverrides_def split: if_splits)

lemma getJobManifest_events: "list_all is_compose (fst (getJobManifest c e p ov))"
  by (auto simp: getJobManifest_def split: prod.splits result.splits
      dest: getBaseJobManifest_events applyOverrides_events)

lemma manifest_of_events: "list_all is_compose (fst (manifest_of c e aCfg))"
  by (simp add: manifest_of_def getJobManifest_events split: option.splits)

lemma events_of_compose: "list_all is_compose (events_of c e n)"
  by (simp add: events_of_def manifest_of_events split: option.splits)

lemma filter_register_compose: "list_all is_compose evs \<Longrightarrow> filter is_register evs = []"
proof (induction evs)
  case Nil
  then show ?case by simp
next
  case (Cons ev evs)
  then show ?case by (cases ev) simp_all
qed

subsection \<open>The loop over the requested names\<close>

lemma assembles_cases:
  assumes "assembles c e n"
  obtains aCfg k jm evs timeout ff where
    "acsCfgByName e n = Some aCfg"
    "KubernetesClusterExecutionMode (ExecutionModeConfig aCfg) = Some k"
    "getJobManifest c e (JobManifestPath k) (Overrides k) = (evs, Returned jm)"
    "Timeout (Config aCfg) = Some timeout"
    "IsFailFast (Config aCfg) = Some ff"
  using assms
  by (auto simp: assembles_def manifest_of_def is_Returned_def split: option.splits)
    (metis prod.collapse)

lemma assembles_action:
  assumes "assembles c e n"
  shows "\<exists>aCfg k jm timeout isFailFast.
           acsCfgByName e n = Some aCfg \<and>
           KubernetesClusterExecutionMode (ExecutionModeConfig aCfg) = Some k \<and>
           snd (getJobManifest c e (JobManifestPath k) (Overrides k)) = Returned jm \<and>
           Timeout (Config aCfg) = Some timeout \<and>
           IsFailFast (Config aCfg) = Some isFailFast \<and>
           the (action_of c e built n) =
             NewAction c (Action_Name aCfg) timeout isFailFast (tasks_of c e built jm aCfg)"
  using assms
  by (auto simp: assembles_def manifest_of_def action_of_def is_Returned_def
      split: option.splits)

lemma createActions_loop_append:
  "list_all (assembles c e) pre \<Longrightarrow>
   createActions_loop c e out built (pre @ rest) acs tt =
     (case createActions_loop c e out built rest
             (acs @ map (\<lambda>n. the (action_of c e built n)) pre)
             (tt @ concat (map (tracked_by_name e) pre)) of
        (evs, r) \<Rightarrow> (concat (map (events_of c e) pre) @ evs, r))"
proof (induction pre arbitrary: acs tt)
  case Nil
  then show ?case by simp
next
  case (Cons n pre)
  from Cons.prems have a: "assembles c e n" and rest: "list_all (assembles c e) pre"
    by simp_all
  from a obtain aCfg k jm evs timeout ff where
    "acsCfgByName e n = Some aCfg"
    "KubernetesClusterExecutionMode (ExecutionModeConfig aCfg) = Some k"
    "getJobManifest c e (JobManifestPath k) (Overrides k) = (evs, Returned jm)"
    "Timeout (Config aCfg) = Some timeout" "IsFailFast (Config aCfg) = Some ff"
    by (rule assembles_cases)
  then show ?case
    using Cons.IH [OF rest]
    by (simp add: createTasks_eq events_of_def manifest_of_def action_of_def tracked_by_name_def
        split_beta)
qed

lemma createActions_loop_ok:
  "list_all (assembles c e) names \<Longrightarrow>
   createActions_loop c e out built names acs tt =
     (concat (map (events_of c e) names),
      Returned (acs @ map (\<lambda>n. the (action_of c e built n)) names,
                tt @ concat (map (tracked_by_name e) names)))"
  using createActions_loop_append [of c e names out built "[]" acs tt] by simp

lemma createActions_loop_events:
  "list_all is_compose (fst (createActions_loop c e out built names acs tt))"
proof (induction names arbitrary: acs tt)
  case Nil
  then show ?case by simp
next
  case (Cons n names)
  show ?case
  proof (cases "acsCfgByName e n")
    case None
    then show ?thesis by simp
  next
    case (Some aCfg)
    show ?thesis
    proof (cases "KubernetesClusterExecutionMode (ExecutionModeConfig aCfg)")
      case None
      with Some show ?thesis by simp
    next
      case k: (Some k)
      obtain evs r where jm: "getJobManifest c e (JobManifestPath k) (Overrides k) = (evs, r)"
        by fastforce
      have evs: "list_all is_compose evs"
        using getJobManifest_events [of c e "JobManifestPath k" "Overrides k"] jm by simp
      show ?thesis
        using Some k jm evs Cons.IH
        by (auto simp: createTasks_eq split_beta split: result.splits option.splits)
    qed
  qed
qed

lemma createActions_loop_fails:
  "\<not> list_all (assembles c e) names \<Longrightarrow>
   \<not> is_Returned (snd (createActions_loop c e out built names acs tt))"
proof (induction names arbitrary: acs tt)
  case Nil
  then show ?case by simp
next
  case (Cons n names)
  show ?case
  proof (cases "assembles c e n")
    case True
    with Cons.prems have rest: "\<not> list_all (assembles c e) names" by simp
    from True obtain aCfg k jm evs timeout ff where
      "acsCfgByName e n = Some aCfg"
      "KubernetesClusterExecutionMode (ExecutionModeConfig aCfg) = Some k"
      "getJobManifest c e (JobManifestPath k) (Overrides k) = (evs, Returned jm)"
      "Timeout (Config aCfg) = Some timeout" "IsFailFast (Config aCfg) = Some ff"
      by (rule assembles_cases)
    then show ?thesis
      using Cons.IH [OF rest] by (simp add: createTasks_eq split_beta)
  next
    case False
    show ?thesis
    proof (cases "acsCfgByName e n")
      case None
      then show ?thesis by simp
    next
      case (Some aCfg)
      show ?thesis
      proof (cases "KubernetesClusterExecutionMode (ExecutionModeConfig aCfg)")
        case None
        with Some show ?thesis by simp
      next
        case k: (Some k)
        obtain evs r where jm: "getJobManifest c e (JobManifestPath k) (Overrides k) = (evs, r)"
          by fastforce
        show ?thesis
          using False Some k jm
          by (auto simp: assembles_def manifest_of_def createTasks_eq split_beta
              split: result.splits option.splits)
      qed
    qed
  qed
qed

text \<open>
  The events of the loop, and the way it ends, do not depend on the built artifacts or on
  the accumulators.
\<close>

lemma createActions_loop_built:
  "fst (createActions_loop c e out built names acs tt) =
     fst (createActions_loop c e out built' names acs' tt') \<and>
   forget (snd (createActions_loop c e out built names acs tt)) =
     forget (snd (createActions_loop c e out built' names acs' tt'))"
proof (induction names arbitrary: acs tt acs' tt')
  case Nil
  then show ?case by simp
next
  case (Cons n names)
  show ?case
  proof (cases "acsCfgByName e n")
    case None
    then show ?thesis by simp
  next
    case (Some aCfg)
    show ?thesis
    proof (cases "KubernetesClusterExecutionMode (ExecutionModeConfig aCfg)")
      case None
      with Some show ?thesis by simp
    next
      case k: (Some k)
      obtain evs r where jm: "getJobManifest c e (JobManifestPath k) (Overrides k) = (evs, r)"
        by fastforce
      show ?thesis
        using Some k jm Cons.IH
        by (cases r; cases "Timeout (Config aCfg)"; cases "IsFailFast (Config aCfg)")
          (simp_all add: createTasks_eq split_beta)
    qed
  qed
qed

lemma forget_createActions:
  "forget (snd (createActions c e out bs names)) =
   forget (snd (createActions_loop c e out (builtArtifacts_loop bs Map.empty) names [] []))"
  by (simp add: createActions_def split_beta split: result.splits)

subsection \<open>The batch build\<close>

lemma createActions_ok:
  "list_all (assembles c e) names \<Longrightarrow>
   createActions c e out bs names =
     (concat (map (events_of c e) names) @
        [EvRegisterArtifacts (concat (map (tracked_by_name e) names))],
      Returned (map (\<lambda>n. the (action_of c e (builtArtifacts_loop bs Map.empty) n)) names))"
  by (simp add: createActions_def createActions_loop_ok)

lemma createActions_fails:
  assumes "\<not> list_all (assembles c e) names"
  shows "\<not> is_Returned (snd (createActions c e out bs names))"
    and "list_all is_compose (fst (createActions c e out bs names))"
proof -
  let ?l = "createActions_loop c e out (builtArtifacts_loop bs Map.empty) names [] []"
  have nr: "\<not> is_Returned (snd ?l)"
    using assms by (rule createActions_loop_fails)
  have ev: "list_all is_compose (fst ?l)"
    by (rule createActions_loop_events)
  obtain evs r where l: "?l = (evs, r)" by fastforce
  with nr have r: "\<not> is_Returned r" by simp
  from l ev have evs: "list_all is_compose evs" by simp
  from r show "\<not> is_Returned (snd (createActions c e out bs names))"
    by (cases r) (simp_all add: createActions_def l)
  from r evs show "list_all is_compose (fst (createActions c e out bs names))"
    by (cases r) (simp_all add: createActions_def l)
qed

lemma concat_events_compose: "list_all is_compose (concat (map (events_of c e) names))"
  by (simp add: list_all_iff events_of_compose [unfolded list_all_iff])

lemma createActions_events:
  "list_all (\<lambda>ev. is_compose ev \<or> is_register ev) (fst (createActions c e out bs names))"
proof (cases "list_all (assembles c e) names")
  case True
  from concat_events_compose [of c e names] show ?thesis
    by (simp add: createActions_ok [OF True] list_all_iff)
next
  case False
  from createActions_fails(2) [OF False, of out bs] show ?thesis
    by (simp add: list_all_iff)
qed

subsection \<open>Composition through pointers\<close>

lemma setDefaultValues_idem:
  assumes "setDefaultValues e1 j = Returned j'"
    and "namespace e1 = namespace e2"
    and "GetRunID (labeller e1) = GetRunID (labeller e2)"
  shows "setDefaultValues e2 j' = Returned j'"
  using assms
  by (auto simp: setDefaultValues_def Let_def map_assign_def set_Job_Labels_def
      set_Template_Labels_def set_Job_Namespace_def Template_Labels_def set_RestartPolicy_def
      set_BackoffLimit_def split: option.splits if_splits)

lemma setDefaultValues_defaulted: "setDefaultValues e j = Returned (defaulted e j)"
  using setDefaultValues_returns [of e j] by (auto simp: defaulted_def)

lemma defaulted_cong:
  "namespace e1 = namespace e2 \<Longrightarrow> GetRunID (labeller e1) = GetRunID (labeller e2) \<Longrightarrow>
   defaulted e1 j = defaulted e2 j"
  using setDefaultValues_cong [of e1 e2 j] by (simp add: defaulted_def)

lemma defaulted_idem:
  "namespace e1 = namespace e2 \<Longrightarrow> GetRunID (labeller e1) = GetRunID (labeller e2) \<Longrightarrow>
   defaulted e2 (defaulted e1 j) = defaulted e1 j"
  using setDefaultValues_idem [OF setDefaultValues_defaulted, of e1 e2 j]
  by (simp add: defaulted_def)

lemma deref_append [simp]: "deref (s @ [j]) (length s) = Some j"
  by (simp add: deref_def)

lemma setDefaultValues_ptr_eq:
  "setDefaultValues_ptr e job s =
     (case deref s job of
        None \<Rightarrow> (Panicked NilPointerDereference, s)
      | Some j \<Rightarrow> (Returned (), s[job := defaulted e j]))"
  by (simp add: setDefaultValues_ptr_def setDefaultValues_defaulted split: option.splits)

lemma getBaseJobManifest_ptr_base_call:
  "getBaseJobManifest_ptr h e p s =
     (case base_call h p s of
        (Inl err, s') \<Rightarrow> (Failed err, s')
      | (Inr job, s') \<Rightarrow> (Returned job, s'))"
  by (simp add: getBaseJobManifest_ptr_def base_call_def split: prod.splits sum.splits)

lemma applyOverrides_ptr_eq:
  assumes "patch_of (ApplyOverrides_ptr h) ov A" and "deref s job = Some j"
  shows "applyOverrides_ptr h e job ov s =
     (if ov = '''' then (Returned job, s)
      else case A j of
             Inl err \<Rightarrow> (Failed err, s)
           | Inr (OtherObject kind) \<Rightarrow> (Panicked InterfaceConversion, s)
           | Inr (JobObject j') \<Rightarrow> (Returned (length s), s @ [j']))"
  using assms
  by (auto simp: applyOverrides_ptr_def patch_of_def split: sum.splits Object.splits)

text \<open>What a composition does once the base collaborator has returned a Job.\<close>

lemma getJobManifest_ptr_after_base:
  assumes A: "patch_of (ApplyOverrides_ptr h) ov A"
    and b: "base_call h p s = (Inr job, s')" and d: "deref s' job = Some j"
  shows "getJobManifest_ptr h e p ov s =
     (if ov = '''' then (Returned job, s'[job := defaulted e j])
      else case A j of
             Inl err \<Rightarrow> (Failed err, s')
           | Inr (OtherObject kind) \<Rightarrow> (Panicked InterfaceConversion, s')
           | Inr (JobObject j') \<Rightarrow> (Returned (length s'), s' @ [defaulted e j']))"
proof (cases "ov = ''''")
  case True
  then show ?thesis
    using b d by (simp add: getJobManifest_ptr_def getBaseJobManifest_ptr_base_call
        applyOverrides_ptr_def setDefaultValues_ptr_eq)
next
  case False
  show ?thesis
  proof (cases "A j")
    case (Inl err)
    with False show ?thesis
      using b by (simp add: getJobManifest_ptr_def getBaseJobManifest_ptr_base_call
          applyOverrides_ptr_eq [OF A d])
  next
    case (Inr obj)
    show ?thesis
    proof (cases obj)
      case (JobObject j')
      have "setDefaultValues_ptr e (length s') (s' @ [j']) =
              (Returned (), s' @ [defaulted e j'])"
        by (simp add: setDefaultValues_ptr_eq)
      with False Inr JobObject show ?thesis
        using b by (simp add: getJobManifest_ptr_def getBaseJobManifest_ptr_base_call
            applyOverrides_ptr_eq [OF A d])
    next
      case (OtherObject kind)
      with False Inr show ?thesis
        using b by (simp add: getJobManifest_ptr_def getBaseJobManifest_ptr_base_call
            applyOverrides_ptr_eq [OF A d])
    qed
  qed
qed

text \<open>
  With collaborators that allocate a new Job at every call, the manifest returned through
  the store is the one computed on the values.
\<close>

lemma getJobManifest_ptr_refines:
  assumes "allocates c h"
    and "getJobManifest_ptr h e p ov s = (r, s')"
  shows "manifest_at r s' = value_of (snd (getJobManifest c e p ov))"
proof -
  from assms(1) have A: "patch_of (ApplyOverrides_ptr h) ov (\<lambda>j. ApplyOverrides c j ov)"
    by (simp add: allocates_def)
  show ?thesis
  proof (cases "base_call h p s")
    case (Pair b s1)
    show ?thesis
    proof (cases b)
      case (Inl err)
      with Pair assms show ?thesis
        by (auto simp: allocates_def base_call_def getJobManifest_ptr_def
            getBaseJobManifest_ptr_base_call getJobManifest_def getBaseJobManifest_def
            manifest_at_def value_of_def split: if_splits sum.splits)
    next
      case (Inr job)
      with Pair assms(1) obtain j where
        s1: "s1 = s @ [j]" and job: "job = length s" and
        j: "getBaseJobManifest c e p = (fst (getBaseJobManifest c e p), Returned j)"
        by (auto simp: allocates_def base_call_def getBaseJobManifest_def
            split: if_splits sum.splits)
      have b: "base_call h p s = (Inr job, s1)" using Pair Inr by simp
      have d: "deref s1 job = Some j" by (simp add: s1 job)
      from getJobManifest_ptr_after_base [OF A b d, of e] assms(2) j show ?thesis
        by (auto simp: manifest_at_def value_of_def getJobManifest_def applyOverrides_def
            setDefaultValues_defaulted s1 job deref_def nth_append
            split: if_splits sum.splits Object.splits prod.splits result.splits)
    qed
  qed
qed

subsection \<open>The actions of a returned list\<close>

lemma getArtifactToDeploy_last:
  "getArtifactToDeploy e (builtArtifacts_loop bs Map.empty) cCfg =
     \<lparr>ImageName = Container_Image cCfg,
      Tag = (case filter (\<lambda>b. ImageName b = Container_Image cCfg) bs of
               [] \<Rightarrow> Container_Image cCfg
             | b # bs' \<Rightarrow> Tag (last (b # bs')))\<rparr>"
  by (simp add: getArtifactToDeploy_def builtArtifacts_loop_lookup split: list.splits)

lemma createActions_returned:
  assumes "snd (createActions c e out bs names) = Returned acs"
  shows "list_all (assembles c e) names"
    and "acs = map (\<lambda>n. the (action_of c e (builtArtifacts_loop bs Map.empty) n)) names"
proof -
  show all: "list_all (assembles c e) names"
  proof (rule ccontr)
    assume "\<not> list_all (assembles c e) names"
    from createActions_fails(1) [OF this, of out bs] assms show False by simp
  qed
  from createActions_ok [OF all, of out bs] assms
  show "acs = map (\<lambda>n. the (action_of c e (builtArtifacts_loop bs Map.empty) n)) names"
    by simp
qed

section \<open>Properties\<close>

subsection \<open>Registration of the tracked artifacts\<close>

text \<open>
  C1. In every call of the batch build, \<open>RegisterArtifacts\<close> is called exactly once when
  every requested name is assembled, with the tracked artifacts of all actions in request
  order, and it is then the last event, after the composition events of every action; when
  some name is not assembled (its lookup or the composition of its manifest fails), it is
  not called and no action list is returned. The same count holds for \<open>PrepareActions\<close>,
  which reaches the batch build only when the cluster probe succeeds.
\<close>

theorem createActions_registers_once_after_all:
  "filter is_register (fst (createActions c e out bs names)) =
     (if list_all (assembles c e) names
      then [EvRegisterArtifacts (concat (map (tracked_by_name e) names))] else []) \<and>
   is_Returned (snd (createActions c e out bs names)) = list_all (assembles c e) names \<and>
   (list_all (assembles c e) names \<longrightarrow>
      fst (createActions c e out bs names) =
        concat (map (events_of c e) names) @
          [EvRegisterArtifacts (concat (map (tracked_by_name e) names))]) \<and>
   filter is_register (fst (PrepareActions c e out bs names)) =
     (if FailIfClusterIsNotReachable c (KubeContext (kubectl e)) = None \<and>
         list_all (assembles c e) names
      then [EvRegisterArtifacts (concat (map (tracked_by_name e) names))] else [])"
proof (cases "list_all (assembles c e) names")
  case True
  have pre: "filter is_register (concat (map (events_of c e) names)) = []"
    by (rule filter_register_compose) (rule concat_events_compose)
  show ?thesis
    using True pre
    by (simp add: createActions_ok PrepareActions_def split: option.splits)
next
  case False
  have f: "filter is_register (fst (createActions c e out bs names)) = []"
    using createActions_fails(2) [OF False] by (rule filter_register_compose)
  show ?thesis
    using False f createActions_fails(1) [OF False, of out bs]
    by (auto simp: PrepareActions_def split_beta split: option.splits)
qed

text \<open>
  Two requested actions that are both assembled, and two of which the second has a manifest
  path that cannot be loaded.
\<close>

theorem createActions_registers_once_after_all_witness:
  "list_all (assembles demo_collab demo_env) [''verify'', ''pair''] \<and>
   fst (createActions demo_collab demo_env 0 demo_builds [''verify'', ''pair'']) =
     [EvGetGenericJob, EvLoadFromPath ''job.yaml'', EvApplyOverrides ''patched'',
      EvRegisterArtifacts
        [\<lparr>ImageName = ''app'', Tag = ''t1''\<rparr>, \<lparr>ImageName = ''db'', Tag = ''t4''\<rparr>,
         \<lparr>ImageName = ''web'', Tag = ''t5''\<rparr>]] \<and>
   filter is_register (fst (createActions demo_collab demo_env 0 demo_builds
     [''verify'', ''broken''])) = [] \<and>
   \<not> is_Returned (snd (createActions demo_collab demo_env 0 demo_builds
     [''verify'', ''broken'']))"
proof -
  have ok: "list_all (assembles demo_collab demo_env) [''verify'', ''pair'']"
    by (simp add: demo_defs code_defs vocabulary_defs)
  have bad: "\<not> list_all (assembles demo_collab demo_env) [''verify'', ''broken'']"
    by (simp add: demo_defs code_defs vocabulary_defs)
  have evs: "concat (map (events_of demo_collab demo_env) [''verify'', ''pair'']) =
      [EvGetGenericJob, EvLoadFromPath ''job.yaml'', EvApplyOverrides ''patched'']"
    by (simp add: demo_defs code_defs vocabulary_defs)
  have tr: "concat (map (tracked_by_name demo_env) [''verify'', ''pair'']) =
      [\<lparr>ImageName = ''app'', Tag = ''t1''\<rparr>, \<lparr>ImageName = ''db'', Tag = ''t4''\<rparr>,
       \<lparr>ImageName = ''web'', Tag = ''t5''\<rparr>]"
    by (simp add: demo_defs vocabulary_defs)
  show ?thesis
    using ok bad evs tr
      createActions_registers_once_after_all
        [of demo_collab demo_env 0 demo_builds "[''verify'', ''pair'']"]
      createActions_registers_once_after_all
        [of demo_collab demo_env 0 demo_builds "[''verify'', ''broken'']"]
    by simp
qed

subsection \<open>An override result that is not a Job\<close>

text \<open>
  The claim C2 says that composition returns an error, and does not panic, when the
  override applier returns a resource that is not a Job. With an applier that answers the
  payload \<open>kind: Pod\<close> with a Pod, composition over the generic Job panics at the type
  assertion and returns no error.
\<close>

theorem getJobManifest_non_Job_counterexample:
  "ApplyOverrides demo_collab (GetGenericJob demo_collab) ''kind: Pod'' =
     Inr (OtherObject ''Pod'') \<and>
   getJobManifest demo_collab demo_env '''' ''kind: Pod'' =
     ([EvGetGenericJob, EvApplyOverrides ''kind: Pod''], Panicked InterfaceConversion) \<and>
   \<not> is_Failed (snd (getJobManifest demo_collab demo_env '''' ''kind: Pod''))"
  by (simp add: demo_defs code_defs)

text \<open>
  C2 (amended). For every base manifest and every non-empty override payload, if the
  override applier returns a resource whose underlying type is not a Job, \<open>applyOverrides\<close>
  panics at the type assertion, and so does \<open>getJobManifest\<close> on every path whose base
  manifest is that one; no error is returned.
\<close>

theorem applyOverrides_non_Job_panics:
  assumes "overrides \<noteq> ''''"
    and "ApplyOverrides c job overrides = Inr (OtherObject kind)"
  shows "applyOverrides c e job overrides =
           ([EvApplyOverrides overrides], Panicked InterfaceConversion) \<and>
         (getBaseJobManifest c e jobManifestPath = (evs, Returned job) \<longrightarrow>
            getJobManifest c e jobManifestPath overrides =
              (evs @ [EvApplyOverrides overrides], Panicked InterfaceConversion))"
  using assms by (simp add: applyOverrides_def getJobManifest_def)

theorem applyOverrides_non_Job_panics_witness:
  "''kind: Pod'' \<noteq> '''' \<and>
   ApplyOverrides demo_collab demo_job ''kind: Pod'' = Inr (OtherObject ''Pod'') \<and>
   getBaseJobManifest demo_collab demo_env '''' = ([EvGetGenericJob], Returned demo_job) \<and>
   applyOverrides demo_collab demo_env demo_job ''kind: Pod'' =
     ([EvApplyOverrides ''kind: Pod''], Panicked InterfaceConversion) \<and>
   getJobManifest demo_collab demo_env '''' ''kind: Pod'' =
     ([EvGetGenericJob] @ [EvApplyOverrides ''kind: Pod''], Panicked InterfaceConversion)"
proof -
  have h1: "''kind: Pod'' \<noteq> ''''" by simp
  have h2: "ApplyOverrides demo_collab demo_job ''kind: Pod'' = Inr (OtherObject ''Pod'')"
    by (simp add: demo_collab_def)
  have h3: "getBaseJobManifest demo_collab demo_env '''' = ([EvGetGenericJob], Returned demo_job)"
    by (simp add: getBaseJobManifest_def demo_collab_def)
  from applyOverrides_non_Job_panics [OF h1 h2, of demo_env "''''" "[EvGetGenericJob]"] h1 h2 h3
  show ?thesis by simp
qed

subsection \<open>The defaults of a composed manifest\<close>

text \<open>
  C3. In an environment built by \<open>newExecEnv\<close>, for every manifest path and override
  payload for which \<open>getJobManifest\<close> returns a Job, that Job has a non-empty namespace,
  allocated label maps on the Job and on its Pod template, the label
  \<open>skaffold.dev/run-id\<close> bound to the labeller's run identifier in both maps whatever the
  base manifest or the override had set, restart policy \<open>Never\<close> and backoff limit zero.
\<close>

theorem getJobManifest_defaults:
  assumes "getJobManifest c (newExecEnv NewCLI cfg l ns envMap acs) jobManifestPath overrides =
             (evs, Returned job)"
  shows "Namespace (Job_ObjectMeta job) \<noteq> '''' \<and>
         (\<exists>m. Labels (Job_ObjectMeta job) = Some m \<and>
              m ''skaffold.dev/run-id'' = Some (GetRunID l)) \<and>
         (\<exists>m. Labels (Template_ObjectMeta (Template (Job_Spec job))) = Some m \<and>
              m ''skaffold.dev/run-id'' = Some (GetRunID l)) \<and>
         RestartPolicy (Template_Spec (Template (Job_Spec job))) = ''Never'' \<and>
         BackoffLimit (Job_Spec job) = Some 0"
proof -
  let ?e = "newExecEnv NewCLI cfg l ns envMap acs"
  from getJobManifest_Returned [OF assms] obtain job0 where
    "setDefaultValues ?e job0 = Returned job" by blast
  from setDefaultValues_eq [OF this]
  show ?thesis
    by (simp add: newExecEnv_def Let_def Template_Labels_def split: if_splits)
qed

text \<open>
  The generic Job has no namespace and no labels, and the override binds the run-id label
  to the payload; the composed manifest is in the namespace \<open>default\<close> and carries the
  run identifier of the environment.
\<close>

theorem getJobManifest_defaults_witness:
  "(\<exists>job.
      getJobManifest demo_collab
        (newExecEnv demo_NewCLI ''minikube'' \<lparr>runID = ''run-1''\<rparr> '''' [] demo_actions)
        '''' ''patched'' = ([EvGetGenericJob, EvApplyOverrides ''patched''], Returned job) \<and>
      Namespace (Job_ObjectMeta job) = ''default'' \<and>
      Namespace (Job_ObjectMeta job) \<noteq> '''' \<and>
      (\<exists>m. Labels (Job_ObjectMeta job) = Some m \<and> m ''skaffold.dev/run-id'' = Some ''run-1'') \<and>
      (\<exists>m. Labels (Template_ObjectMeta (Template (Job_Spec job))) = Some m \<and>
           m ''skaffold.dev/run-id'' = Some ''run-1'') \<and>
      RestartPolicy (Template_Spec (Template (Job_Spec job))) = ''Never'' \<and>
      BackoffLimit (Job_Spec job) = Some 0)"
proof -
  let ?e = "newExecEnv demo_NewCLI ''minikube'' \<lparr>runID = ''run-1''\<rparr> '''' [] demo_actions"
  obtain job where
    h: "getJobManifest demo_collab ?e '''' ''patched'' =
          ([EvGetGenericJob, EvApplyOverrides ''patched''], Returned job)"
    and ns: "Namespace (Job_ObjectMeta job) = ''default''"
    by (simp add: demo_defs code_defs)
  from getJobManifest_defaults [OF h] h ns show ?thesis
    by (simp add: GetRunID_def)
qed

subsection \<open>Artifact binding\<close>

text \<open>
  C4. For every container configuration and every map of built artifacts,
  \<open>getArtifactToDeploy\<close> returns an artifact whose image name is the container's declared
  image name; its tag is the built artifact's tag when the map has an entry for the
  declared image name, and the declared image name itself otherwise.
\<close>

theorem getArtifactToDeploy_binding:
  "ImageName (getArtifactToDeploy e builtArtifacts cfg) = Container_Image cfg \<and>
   Tag (getArtifactToDeploy e builtArtifacts cfg) =
     (case builtArtifacts (Container_Image cfg) of
        Some ba \<Rightarrow> Tag ba
      | None \<Rightarrow> Container_Image cfg)"
  by (simp add: getArtifactToDeploy_def split: option.split)

theorem getArtifactToDeploy_binding_witness:
  "getArtifactToDeploy demo_env [''app'' \<mapsto> \<lparr>ImageName = ''app'', Tag = ''v1''\<rparr>]
     \<lparr>Container_Name = ''t1'', Container_Image = ''app''\<rparr> = \<lparr>ImageName = ''app'', Tag = ''v1''\<rparr> \<and>
   getArtifactToDeploy demo_env Map.empty
     \<lparr>Container_Name = ''t1'', Container_Image = ''app''\<rparr> = \<lparr>ImageName = ''app'', Tag = ''app''\<rparr>"
  using getArtifactToDeploy_binding
      [of demo_env "[''app'' \<mapsto> \<lparr>ImageName = ''app'', Tag = ''v1''\<rparr>]"
        "\<lparr>Container_Name = ''t1'', Container_Image = ''app''\<rparr>"]
    getArtifactToDeploy_binding
      [of demo_env Map.empty "\<lparr>Container_Name = ''t1'', Container_Image = ''app''\<rparr>"]
  by (simp add: getArtifactToDeploy_def)

subsection \<open>A requested name that is not in the registry\<close>

text \<open>
  The claim C5 says that a batch with an absent name fails on the first such name with an
  error that identifies it. When a name before it is in the registry but its manifest
  cannot be loaded, the build ends there, with the loader's error.
\<close>

theorem createActions_unknown_name_counterexample:
  "acsCfgByName demo_env ''missing'' = None \<and>
   createActions demo_collab demo_env 0 demo_builds [''broken'', ''missing''] =
     ([EvLoadFromPath ''missing.yaml''], Failed (Error ''cannot read manifest'')) \<and>
   snd (createActions demo_collab demo_env 0 demo_builds [''broken'', ''missing'']) \<noteq>
     Failed (Error ''action missing not found for k8s execution mode'')"
  by (simp add: demo_defs code_defs)

text \<open>
  C5 (amended). For every list of requested names that contains a name absent from the
  registry, the batch build returns no actions and registers no tracked artifacts. When
  every name before the absent one is assembled, the build fails at that name with the
  error \<open>action <name> not found for k8s execution mode\<close>, after the composition events
  of the earlier names only: no later name is processed.
\<close>

theorem createActions_unknown_name:
  assumes "acsCfgByName e m = None"
  shows "(m \<in> set names \<longrightarrow>
            \<not> is_Returned (snd (createActions c e out bs names)) \<and>
            filter is_register (fst (createActions c e out bs names)) = []) \<and>
         (list_all (assembles c e) pre \<longrightarrow>
            createActions c e out bs (pre @ m # rest) =
              (concat (map (events_of c e) pre),
               Failed (Error (''action '' @ m @ '' not found for k8s execution mode''))))"
proof (intro conjI impI)
  assume m: "m \<in> set names"
  from assms have "\<not> assembles c e m" by (simp add: assembles_def)
  with m have no: "\<not> list_all (assembles c e) names" by (auto simp: list_all_iff)
  from createActions_fails(1) [OF no]
  show "\<not> is_Returned (snd (createActions c e out bs names))" .
  from createActions_fails(2) [OF no]
  show "filter is_register (fst (createActions c e out bs names)) = []"
    by (rule filter_register_compose)
next
  assume pre: "list_all (assembles c e) pre"
  show "createActions c e out bs (pre @ m # rest) =
          (concat (map (events_of c e) pre),
           Failed (Error (''action '' @ m @ '' not found for k8s execution mode'')))"
    using assms by (simp add: createActions_def createActions_loop_append [OF pre])
qed

theorem createActions_unknown_name_witness:
  "acsCfgByName demo_env ''missing'' = None \<and>
   ''missing'' \<in> set [''verify'', ''missing'', ''broken''] \<and>
   list_all (assembles demo_collab demo_env) [''verify''] \<and>
   createActions demo_collab demo_env 0 demo_builds ([''verify''] @ ''missing'' # [''broken'']) =
     ([EvGetGenericJob],
      Failed (Error ''action missing not found for k8s execution mode'')) \<and>
   filter is_register (fst (createActions demo_collab demo_env 0 demo_builds
     [''verify'', ''missing'', ''broken''])) = []"
proof -
  have h: "acsCfgByName demo_env ''missing'' = None"
    by (simp add: demo_defs)
  have ok: "list_all (assembles demo_collab demo_env) [''verify'']"
    by (simp add: demo_defs code_defs vocabulary_defs)
  have evs: "concat (map (events_of demo_collab demo_env) [''verify'']) = [EvGetGenericJob]"
    by (simp add: demo_defs code_defs vocabulary_defs)
  from createActions_unknown_name
         [OF h, of "[''verify'', ''missing'', ''broken'']" demo_collab 0 demo_builds
           "[''verify'']" "[''broken'']"] h ok evs
  show ?thesis by simp
qed

subsection \<open>The probe and the logger\<close>

text \<open>
  C6. In every call of \<open>PrepareActions\<close> the cluster probe is the first event. When the
  probe fails it is the only event (no manifest is composed, the logger is not started,
  nothing is registered) and the result is the error that wraps the probe's error behind
  \<open>unable to connect to Kubernetes: \<close>. When it succeeds the second event is the start
  of the logger on the output sink, and the events of the batch build, which are composition
  and registration events only, follow it.
\<close>

theorem PrepareActions_probe_first:
  "(case FailIfClusterIsNotReachable c (KubeContext (kubectl e)) of
      Some err \<Rightarrow>
        PrepareActions c e out bs names =
          ([EvFailIfClusterIsNotReachable (KubeContext (kubectl e))],
           Failed (Wrapf ''unable to connect to Kubernetes: '' err))
    | None \<Rightarrow>
        fst (PrepareActions c e out bs names) =
          EvFailIfClusterIsNotReachable (KubeContext (kubectl e)) # EvLoggerStart out #
            fst (createActions c e out bs names) \<and>
        list_all (\<lambda>ev. is_compose ev \<or> is_register ev)
          (fst (createActions c e out bs names)) \<and>
        snd (PrepareActions c e out bs names) = snd (createActions c e out bs names))"
  by (simp add: PrepareActions_def split_beta createActions_events split: option.splits)

theorem PrepareActions_probe_first_witness:
  "(\<exists>err.
      PrepareActions demo_collab demo_env_down 7 demo_builds [''verify''] =
        ([EvFailIfClusterIsNotReachable ''down''], Failed err) \<and>
      Unwrap err = Some (Error ''cluster unreachable'') \<and>
      error_message err = ''unable to connect to Kubernetes: cluster unreachable'') \<and>
   fst (PrepareActions demo_collab demo_env 7 demo_builds [''verify'']) =
     [EvFailIfClusterIsNotReachable ''minikube'', EvLoggerStart 7, EvGetGenericJob,
      EvRegisterArtifacts [\<lparr>ImageName = ''app'', Tag = ''t1''\<rparr>]]"
proof -
  have down: "FailIfClusterIsNotReachable demo_collab (KubeContext (kubectl demo_env_down)) =
      Some (Error ''cluster unreachable'')"
    by (simp add: demo_defs)
  have up: "FailIfClusterIsNotReachable demo_collab (KubeContext (kubectl demo_env)) = None"
    by (simp add: demo_defs)
  have ctx: "KubeContext (kubectl demo_env_down) = ''down''"
    "KubeContext (kubectl demo_env) = ''minikube''"
    by (simp_all add: demo_defs)
  have evs: "fst (createActions demo_collab demo_env 7 demo_builds [''verify'']) =
      [EvGetGenericJob, EvRegisterArtifacts [\<lparr>ImageName = ''app'', Tag = ''t1''\<rparr>]]"
    by (simp add: demo_defs code_defs)
  from PrepareActions_probe_first [of demo_collab demo_env_down 7 demo_builds "[''verify'']"]
    PrepareActions_probe_first [of demo_collab demo_env 7 demo_builds "[''verify'']"]
    down up ctx evs
  show ?thesis by simp
qed

subsection \<open>Order of the actions and of their tasks\<close>

text \<open>
  C7. When the batch build returns an action list, the list has one action for each
  requested name, in request order: the action at position \<open>i\<close> is built by \<open>NewAction\<close>
  from the name, the timeout and the fail-fast flag of the configuration registered under
  the \<open>i\<close>-th requested name, and from the tasks built by \<open>NewTask\<close> for the containers of
  that configuration, in the order of the container declarations.
\<close>

theorem createActions_order:
  assumes "snd (createActions c e out bs names) = Returned acs"
  shows "length acs = length names \<and>
         (\<forall>i<length names.
            \<exists>aCfg k jm timeout isFailFast.
              acsCfgByName e (names ! i) = Some aCfg \<and>
              KubernetesClusterExecutionMode (ExecutionModeConfig aCfg) = Some k \<and>
              snd (getJobManifest c e (JobManifestPath k) (Overrides k)) = Returned jm \<and>
              Timeout (Config aCfg) = Some timeout \<and>
              IsFailFast (Config aCfg) = Some isFailFast \<and>
              acs ! i =
                NewAction c (Action_Name aCfg) timeout isFailFast
                  (map (\<lambda>cCfg. NewTask c cCfg (kubectl e) (namespace e)
                          (getArtifactToDeploy e (builtArtifacts_loop bs Map.empty) cCfg) jm e)
                     (Containers aCfg)))"
proof -
  have all: "list_all (assembles c e) names"
  proof (rule ccontr)
    assume "\<not> list_all (assembles c e) names"
    from createActions_fails(1) [OF this, of out bs] assms show False by simp
  qed
  from createActions_ok [OF all, of out bs] assms
  have acs: "acs = map (\<lambda>n. the (action_of c e (builtArtifacts_loop bs Map.empty) n)) names"
    by simp
  show ?thesis
  proof (intro conjI allI impI)
    show "length acs = length names" by (simp add: acs)
  next
    fix i assume i: "i < length names"
    with all have "assembles c e (names ! i)" by (simp add: list_all_length)
    from assembles_action [OF this, of "builtArtifacts_loop bs Map.empty"] i
    show "\<exists>aCfg k jm timeout isFailFast.
              acsCfgByName e (names ! i) = Some aCfg \<and>
              KubernetesClusterExecutionMode (ExecutionModeConfig aCfg) = Some k \<and>
              snd (getJobManifest c e (JobManifestPath k) (Overrides k)) = Returned jm \<and>
              Timeout (Config aCfg) = Some timeout \<and>
              IsFailFast (Config aCfg) = Some isFailFast \<and>
              acs ! i =
                NewAction c (Action_Name aCfg) timeout isFailFast
                  (map (\<lambda>cCfg. NewTask c cCfg (kubectl e) (namespace e)
                          (getArtifactToDeploy e (builtArtifacts_loop bs Map.empty) cCfg) jm e)
                     (Containers aCfg))"
      by (simp add: acs tasks_of_def)
  qed
qed

text \<open>
  Two actions requested in the order opposite to the registry's; the second container of
  the first has an image that was not built.
\<close>

theorem createActions_order_witness:
  "snd (createActions demo_collab demo_env 0 demo_builds [''pair'', ''verify'']) =
     Returned
       [(''pair'', 30, True,
         [(''t4'', \<lparr>ImageName = ''db'', Tag = ''d1''\<rparr>, ''jobs''),
          (''t5'', \<lparr>ImageName = ''web'', Tag = ''web''\<rparr>, ''jobs'')]),
        (''verify'', 30, True, [(''t1'', \<lparr>ImageName = ''app'', Tag = ''v2''\<rparr>, ''default'')])] \<and>
   length
       [(''pair'', 30::int, True,
         [(''t4'', \<lparr>ImageName = ''db'', Tag = ''d1''\<rparr>, ''jobs''),
          (''t5'', \<lparr>ImageName = ''web'', Tag = ''web''\<rparr>, ''jobs'')]),
        (''verify'', 30, True, [(''t1'', \<lparr>ImageName = ''app'', Tag = ''v2''\<rparr>, ''default'')])] =
     length [''pair'', ''verify'']"
proof -
  have h: "snd (createActions demo_collab demo_env 0 demo_builds [''pair'', ''verify'']) =
     Returned
       [(''pair'', 30, True,
         [(''t4'', \<lparr>ImageName = ''db'', Tag = ''d1''\<rparr>, ''jobs''),
          (''t5'', \<lparr>ImageName = ''web'', Tag = ''web''\<rparr>, ''jobs'')]),
        (''verify'', 30, True, [(''t1'', \<lparr>ImageName = ''app'', Tag = ''v2''\<rparr>, ''default'')])]"
    by (simp add: demo_defs code_defs)
  from createActions_order [OF h] h show ?thesis by blast
qed

subsection \<open>Tracked artifacts\<close>

text \<open>
  C8. For every action configuration, \<open>createTasks\<close> emits exactly one tracked artifact
  for each container, in declaration order, whose image name is the container's declared
  image name and whose tag field is the container's name, whatever the built artifacts
  are; it builds as many tasks. When every requested name is assembled, the list handed to
  \<open>RegisterArtifacts\<close> is made of these pairs, for the containers of every action in
  request order.
\<close>

theorem createTasks_tracked_artifacts:
  "snd (createTasks c e out aCfg jobManifest builtArtifacts) =
     map (\<lambda>cCfg. \<lparr>ImageName = Container_Image cCfg, Tag = Container_Name cCfg\<rparr>)
       (Containers aCfg) \<and>
   length (snd (createTasks c e out aCfg jobManifest builtArtifacts)) =
     length (Containers aCfg) \<and>
   length (fst (createTasks c e out aCfg jobManifest builtArtifacts)) =
     length (Containers aCfg) \<and>
   (list_all (assembles c e) names \<longrightarrow>
      last (fst (createActions c e out bs names)) =
        EvRegisterArtifacts
          (concat (map (\<lambda>aName.
             case acsCfgByName e aName of
               None \<Rightarrow> []
             | Some cfg \<Rightarrow>
                 map (\<lambda>cCfg. \<lparr>ImageName = Container_Image cCfg, Tag = Container_Name cCfg\<rparr>)
                   (Containers cfg)) names)))"
  by (simp add: createTasks_def createTasks_loop_eq createActions_ok
      tracked_by_name_def [abs_def] tracked_of_def cong: option.case_cong)

text \<open>
  The container \<open>t4\<close> has the image \<open>db\<close>, built with the tag \<open>d1\<close>, and \<open>t1\<close> the
  image \<open>app\<close>, built with the tags \<open>v1\<close> and \<open>v2\<close>.
\<close>

theorem createTasks_tracked_artifacts_witness:
  "snd (createTasks demo_collab demo_env 0 (demo_actions ! 3) demo_manifest
          (builtArtifacts_loop demo_builds Map.empty)) =
     [\<lparr>ImageName = ''db'', Tag = ''t4''\<rparr>, \<lparr>ImageName = ''web'', Tag = ''t5''\<rparr>] \<and>
   map fst (fst (createTasks demo_collab demo_env 0 (demo_actions ! 3) demo_manifest
          (builtArtifacts_loop demo_builds Map.empty))) = [''t4'', ''t5''] \<and>
   list_all (assembles demo_collab demo_env) [''pair'', ''verify''] \<and>
   last (fst (createActions demo_collab demo_env 0 demo_builds [''pair'', ''verify''])) =
     EvRegisterArtifacts
       [\<lparr>ImageName = ''db'', Tag = ''t4''\<rparr>, \<lparr>ImageName = ''web'', Tag = ''t5''\<rparr>,
        \<lparr>ImageName = ''app'', Tag = ''t1''\<rparr>]"
proof -
  have ok: "list_all (assembles demo_collab demo_env) [''pair'', ''verify'']"
    by (simp add: demo_defs code_defs vocabulary_defs)
  have cfg: "acsCfgByName demo_env ''pair'' = Some (demo_actions ! 3)"
    "acsCfgByName demo_env ''verify'' = Some (demo_actions ! 0)"
    by (simp_all add: demo_defs)
  have cs: "Containers (demo_actions ! 3) =
      [\<lparr>Container_Name = ''t4'', Container_Image = ''db''\<rparr>,
       \<lparr>Container_Name = ''t5'', Container_Image = ''web''\<rparr>]"
    "Containers (demo_actions ! 0) = [\<lparr>Container_Name = ''t1'', Container_Image = ''app''\<rparr>]"
    by (simp_all add: demo_defs)
  have ts: "map fst (fst (createTasks demo_collab demo_env 0 (demo_actions ! 3) demo_manifest
          (builtArtifacts_loop demo_builds Map.empty))) = [''t4'', ''t5'']"
    by (simp add: createTasks_def cs demo_collab_def Let_def)
  from createTasks_tracked_artifacts
         [of demo_collab demo_env 0 "demo_actions ! 3" demo_manifest
           "builtArtifacts_loop demo_builds Map.empty" "[''pair'', ''verify'']" demo_builds]
    ok cfg cs ts
  show ?thesis by simp
qed

subsection \<open>Determinism of composition\<close>

text \<open>
  C9. Composition is deterministic. Take two calls of \<open>getJobManifest_ptr\<close> with the same
  manifest path and the same override payload, the second on the store the first has left,
  in environments with the same namespace and run identifier, and with fixed collaborator
  results: the base collaborator fails with one error, or allocates a new Job with the same
  fields at every call, or hands out at every call the same pointer; the applier computes
  its answer from the Job it is given and leaves that Job as it is. Then the two calls end
  the same way and return identical manifests, also when the second call gets the very Job
  that \<open>setDefaultValues\<close> wrote into during the first; and the second call leaves the
  manifest of the first as it was.
\<close>

theorem getJobManifest_deterministic:
  assumes ns: "namespace e1 = namespace e2"
    and rid: "GetRunID (labeller e1) = GetRunID (labeller e2)"
    and base: "fixed_result (base_call h jobManifestPath) s0"
    and patch: "fixed_patch (ApplyOverrides_ptr h) overrides"
    and call1: "getJobManifest_ptr h e1 jobManifestPath overrides s0 = (r1, s1)"
    and call2: "getJobManifest_ptr h e2 jobManifestPath overrides s1 = (r2, s2)"
  shows "manifest_at r1 s1 = manifest_at r2 s2 \<and> manifest_at r1 s2 = manifest_at r1 s1"
proof -
  from patch obtain A where A: "patch_of (ApplyOverrides_ptr h) overrides A"
    by (auto simp: fixed_patch_def)
  note dc = defaulted_cong [OF ns rid]
  note di = defaulted_idem [OF ns rid] defaulted_idem [OF refl refl]
  from base consider
    (err) err where "\<forall>s. base_call h jobManifestPath s = (Inl err, s)"
    | (new) j where "\<forall>s. base_call h jobManifestPath s = (Inr (length s), s @ [j])"
    | (same) a where "a < length s0" "\<forall>s. base_call h jobManifestPath s = (Inr a, s)"
    by (auto simp: fixed_result_def)
  then show ?thesis
  proof cases
    case err
    with call1 call2 show ?thesis
      by (auto simp: getJobManifest_ptr_def getBaseJobManifest_ptr_base_call manifest_at_def)
  next
    case new
    have c: "getJobManifest_ptr h e jobManifestPath overrides s =
        (if overrides = '''' then (Returned (length s), (s @ [j])[length s := defaulted e j])
         else case A j of
             Inl err \<Rightarrow> (Failed err, s @ [j])
           | Inr (OtherObject kind) \<Rightarrow> (Panicked InterfaceConversion, s @ [j])
           | Inr (JobObject j') \<Rightarrow> (Returned (length (s @ [j])), (s @ [j]) @ [defaulted e j']))"
      for e s
      by (rule getJobManifest_ptr_after_base [OF A]) (simp_all add: new)
    from call1 call2 show ?thesis
      by (auto simp: c manifest_at_def deref_def nth_append dc
          split: if_splits sum.splits Object.splits)
  next
    case same
    have c: "getJobManifest_ptr h e jobManifestPath overrides s =
        (if overrides = '''' then (Returned a, s[a := defaulted e (s ! a)])
         else case A (s ! a) of
             Inl err \<Rightarrow> (Failed err, s)
           | Inr (OtherObject kind) \<Rightarrow> (Panicked InterfaceConversion, s)
           | Inr (JobObject j') \<Rightarrow> (Returned (length s), s @ [defaulted e j']))"
      if "a < length s" for e s
      by (rule getJobManifest_ptr_after_base [OF A]) (simp_all add: same that deref_def)
    have l1: "a < length s1"
      using call1 same(1) by (auto simp: c split: if_splits sum.splits Object.splits)
    from call1 call2 same(1) l1 show ?thesis
      by (auto simp: c manifest_at_def deref_def nth_append dc di
          split: if_splits sum.splits Object.splits)
  qed
qed

text \<open>
  Two environments that differ in the cluster context. With the path \<open>job.yaml\<close> and
  the payload \<open>patched\<close> each call allocates its own Jobs and the two manifests are at
  different addresses; with no path and no payload both calls return the generic Job kept
  at address 0, which the second call finds already composed.
\<close>

theorem getJobManifest_deterministic_witness:
  "kubectl demo_env \<noteq> kubectl demo_env_down \<and>
   fixed_result (base_call demo_ptr ''job.yaml'') [demo_job] \<and>
   fixed_patch (ApplyOverrides_ptr demo_ptr) ''patched'' \<and>
   getJobManifest_ptr demo_ptr demo_env ''job.yaml'' ''patched'' [demo_job] =
     (Returned 2, [demo_job, set_Job_Namespace demo_job ''jobs'', demo_manifest]) \<and>
   getJobManifest_ptr demo_ptr demo_env_down ''job.yaml'' ''patched''
       [demo_job, set_Job_Namespace demo_job ''jobs'', demo_manifest] =
     (Returned 4,
      [demo_job, set_Job_Namespace demo_job ''jobs'', demo_manifest,
       set_Job_Namespace demo_job ''jobs'', demo_manifest]) \<and>
   manifest_at (Returned 2) [demo_job, set_Job_Namespace demo_job ''jobs'', demo_manifest] =
     manifest_at (Returned 4)
       [demo_job, set_Job_Namespace demo_job ''jobs'', demo_manifest,
        set_Job_Namespace demo_job ''jobs'', demo_manifest] \<and>
   fixed_result (base_call demo_ptr '''') [demo_job] \<and>
   fixed_patch (ApplyOverrides_ptr demo_ptr) '''' \<and>
   getJobManifest_ptr demo_ptr demo_env '''' '''' [demo_job] =
     (Returned 0, [demo_generic_manifest]) \<and>
   getJobManifest_ptr demo_ptr demo_env_down '''' '''' [demo_generic_manifest] =
     (Returned 0, [demo_generic_manifest]) \<and>
   manifest_at (Returned 0) [demo_generic_manifest] = Returned (Some demo_generic_manifest)"
proof -
  let ?loaded = "set_Job_Namespace demo_job ''jobs''"
  let ?s1 = "[demo_job, ?loaded, demo_manifest]"
  let ?s2 = "[demo_job, ?loaded, demo_manifest, ?loaded, demo_manifest]"
  have k: "kubectl demo_env \<noteq> kubectl demo_env_down"
    by (simp add: demo_defs)
  have n: "namespace demo_env = namespace demo_env_down"
    by (simp add: demo_defs)
  have r: "GetRunID (labeller demo_env) = GetRunID (labeller demo_env_down)"
    by (simp add: demo_defs)
  have p: "fixed_patch (ApplyOverrides_ptr demo_ptr) ov" for ov
    unfolding fixed_patch_def patch_of_def
    by (rule exI [of _ "\<lambda>j. Inr (JobObject
          (set_Job_Labels j (Some [''skaffold.dev/run-id'' \<mapsto> ov])))"])
      (simp add: demo_ptr_def)
  have b1: "fixed_result (base_call demo_ptr ''job.yaml'') [demo_job]"
    by (simp add: fixed_result_def base_call_def demo_ptr_def)
  have b2: "fixed_result (base_call demo_ptr '''') [demo_job]"
    by (simp add: fixed_result_def base_call_def demo_ptr_def)
  have c1: "getJobManifest_ptr demo_ptr demo_env ''job.yaml'' ''patched'' [demo_job] =
      (Returned 2, ?s1)"
    by (simp add: demo_defs code_defs ptr_defs)
  have c2: "getJobManifest_ptr demo_ptr demo_env_down ''job.yaml'' ''patched'' ?s1 =
      (Returned 4, ?s2)"
    by (simp add: demo_defs code_defs ptr_defs)
  have c3: "getJobManifest_ptr demo_ptr demo_env '''' '''' [demo_job] =
      (Returned 0, [demo_generic_manifest])"
    by (simp add: demo_defs code_defs ptr_defs)
  have c4: "getJobManifest_ptr demo_ptr demo_env_down '''' '''' [demo_generic_manifest] =
      (Returned 0, [demo_generic_manifest])"
    by (simp add: demo_defs code_defs ptr_defs)
  have m: "manifest_at (Returned 0) [demo_generic_manifest] =
      Returned (Some demo_generic_manifest)"
    by (simp add: manifest_at_def deref_def)
  from getJobManifest_deterministic [OF n r b1 p c1 c2]
    getJobManifest_deterministic [OF n r b2 p c3 c4]
    k b1 b2 p c1 c2 c3 c4 m
  show ?thesis by simp
qed

subsection \<open>Several built artifacts with one image name\<close>

text \<open>
  C10. The lookup map built from the list of built artifacts binds each image name to its
  last entry in the list. In every action list that the batch build returns, the task of
  each container is built by \<open>NewTask\<close> with the artifact whose image name is the
  container's declared image name and whose tag is the tag of the last built artifact with
  that image name (the declared image name when there is none). The way the batch build
  ends (returning, failing with an error, panicking) does not depend on the list of built
  artifacts at all, so repeated image names are never an error.
\<close>

theorem builtArtifacts_last_wins:
  "builtArtifacts_loop bs Map.empty n =
     (case filter (\<lambda>b. ImageName b = n) bs of
        [] \<Rightarrow> None
      | b # bs' \<Rightarrow> Some (last (b # bs'))) \<and>
   (\<forall>acs. snd (createActions c e out bs names) = Returned acs \<longrightarrow>
      length acs = length names \<and>
      (\<forall>i<length names.
         \<exists>aCfg k jm timeout isFailFast.
           acsCfgByName e (names ! i) = Some aCfg \<and>
           KubernetesClusterExecutionMode (ExecutionModeConfig aCfg) = Some k \<and>
           snd (getJobManifest c e (JobManifestPath k) (Overrides k)) = Returned jm \<and>
           Timeout (Config aCfg) = Some timeout \<and>
           IsFailFast (Config aCfg) = Some isFailFast \<and>
           acs ! i =
             NewAction c (Action_Name aCfg) timeout isFailFast
               (map (\<lambda>cCfg. NewTask c cCfg (kubectl e) (namespace e)
                       \<lparr>ImageName = Container_Image cCfg,
                        Tag = (case filter (\<lambda>b. ImageName b = Container_Image cCfg) bs of
                                 [] \<Rightarrow> Container_Image cCfg
                               | b # bs' \<Rightarrow> Tag (last (b # bs')))\<rparr> jm e)
                  (Containers aCfg)))) \<and>
   forget (snd (createActions c e out bs names)) =
     forget (snd (createActions c e out bs' names))"
proof (intro conjI allI impI)
  show "builtArtifacts_loop bs Map.empty n =
     (case filter (\<lambda>b. ImageName b = n) bs of
        [] \<Rightarrow> None
      | b # bs' \<Rightarrow> Some (last (b # bs')))"
    by (simp add: builtArtifacts_loop_lookup)
next
  show "forget (snd (createActions c e out bs names)) =
        forget (snd (createActions c e out bs' names))"
    by (simp only: forget_createActions
        createActions_loop_built [THEN conjunct2, of c e out _ names "[]" "[]" _ "[]" "[]"])
next
  fix acs assume r: "snd (createActions c e out bs names) = Returned acs"
  from createActions_returned(2) [OF r] show "length acs = length names" by simp
next
  fix acs i
  assume r: "snd (createActions c e out bs names) = Returned acs" and i: "i < length names"
  note all = createActions_returned(1) [OF r] and acs = createActions_returned(2) [OF r]
  from all i have "assembles c e (names ! i)" by (simp add: list_all_length)
  from assembles_action [OF this, of "builtArtifacts_loop bs Map.empty"] i
  show "\<exists>aCfg k jm timeout isFailFast.
           acsCfgByName e (names ! i) = Some aCfg \<and>
           KubernetesClusterExecutionMode (ExecutionModeConfig aCfg) = Some k \<and>
           snd (getJobManifest c e (JobManifestPath k) (Overrides k)) = Returned jm \<and>
           Timeout (Config aCfg) = Some timeout \<and>
           IsFailFast (Config aCfg) = Some isFailFast \<and>
           acs ! i =
             NewAction c (Action_Name aCfg) timeout isFailFast
               (map (\<lambda>cCfg. NewTask c cCfg (kubectl e) (namespace e)
                       \<lparr>ImageName = Container_Image cCfg,
                        Tag = (case filter (\<lambda>b. ImageName b = Container_Image cCfg) bs of
                                 [] \<Rightarrow> Container_Image cCfg
                               | b # bs' \<Rightarrow> Tag (last (b # bs')))\<rparr> jm e)
                  (Containers aCfg))"
    by (simp add: acs tasks_of_def getArtifactToDeploy_last)
qed

text \<open>
  The image \<open>app\<close> was built twice, with the tags \<open>v1\<close> and then \<open>v2\<close>: the task
  of the container \<open>t1\<close> gets the tag \<open>v2\<close>, where the same batch over no built
  artifacts gives it the tag \<open>app\<close>.
\<close>

theorem builtArtifacts_last_wins_witness:
  "builtArtifacts_loop demo_builds Map.empty ''app'' = Some \<lparr>ImageName = ''app'', Tag = ''v2''\<rparr> \<and>
   snd (createActions demo_collab demo_env 0 demo_builds [''verify'']) =
     Returned [(''verify'', 30, True, [(''t1'', \<lparr>ImageName = ''app'', Tag = ''v2''\<rparr>, ''default'')])] \<and>
   snd (createActions demo_collab demo_env 0 [] [''verify'']) =
     Returned [(''verify'', 30, True, [(''t1'', \<lparr>ImageName = ''app'', Tag = ''app''\<rparr>, ''default'')])] \<and>
   length [(''verify'', 30::int, True, [(''t1'', \<lparr>ImageName = ''app'', Tag = ''v2''\<rparr>, ''default'')])] =
     length [''verify''] \<and>
   forget (snd (createActions demo_collab demo_env 0 demo_builds [''verify''])) = Returned ()"
proof -
  have r: "snd (createActions demo_collab demo_env 0 demo_builds [''verify'']) =
     Returned [(''verify'', 30, True, [(''t1'', \<lparr>ImageName = ''app'', Tag = ''v2''\<rparr>, ''default'')])]"
    by (simp add: demo_defs code_defs)
  have r0: "snd (createActions demo_collab demo_env 0 [] [''verify'']) =
     Returned [(''verify'', 30, True, [(''t1'', \<lparr>ImageName = ''app'', Tag = ''app''\<rparr>, ''default'')])]"
    by (simp add: demo_defs code_defs)
  have f: "filter (\<lambda>b. ImageName b = ''app'') demo_builds =
      [\<lparr>ImageName = ''app'', Tag = ''v1''\<rparr>, \<lparr>ImageName = ''app'', Tag = ''v2''\<rparr>]"
    by (simp add: demo_builds_def)
  from builtArtifacts_last_wins
         [of demo_builds "''app''" demo_collab demo_env 0 "[''verify'']" "[]"] r r0 f
  show ?thesis by simp
qed

end
